theory Spec2Isabelle
  imports Main
begin

section \<open>The bootstrap pipeline of the ts-node command line (src/bin.ts)\<close>

text \<open>
  The theory embeds the phases of \<^verbatim>\<open>src/bin.ts\<close>: \<^verbatim>\<open>phase2\<close>, \<^verbatim>\<open>phase3\<close>,
  \<^verbatim>\<open>getEntryPointInfo\<close>, \<^verbatim>\<open>phase4\<close>, \<^verbatim>\<open>bootstrap\<close>, \<^verbatim>\<open>completeBootstrap\<close>,
  \<^verbatim>\<open>createBootstrapStateForChildProcess\<close>, \<^verbatim>\<open>getProjectSearchDir\<close> and
  \<^verbatim>\<open>evalAndExitOnTsError\<close>.  Whatever the file imports from Node or from other modules
  (path resolution, the configuration reader, the compiler service, the REPL service, the
  standard input stream) is a field of the record \<open>host\<close>; every call of such a collaborator
  that has an effect is written to a trace of events, in program order.
\<close>

subsection \<open>JavaScript values\<close>

text \<open>
  A value of TypeScript type \<^verbatim>\<open>boolean | undefined\<close> is a \<open>bool option\<close>, \<open>None\<close> being
  \<^verbatim>\<open>undefined\<close>.  \<open>truthy\<close> is JavaScript's conversion to a boolean; \<open>js_and\<close> and \<open>js_or\<close>
  are \<^verbatim>\<open>&&\<close> and \<^verbatim>\<open>||\<close>, which return one of their operands; \<open>nullish\<close> is \<^verbatim>\<open>??\<close>.
\<close>

definition truthy :: "bool option \<Rightarrow> bool" where
  "truthy b = (b = Some True)"

definition js_and :: "bool option \<Rightarrow> bool option \<Rightarrow> bool option" where
  "js_and a b = (if truthy a then b else a)"

definition js_or :: "bool option \<Rightarrow> bool option \<Rightarrow> bool option" where
  "js_or a b = (if truthy a then a else b)"

definition nullish :: "'a option \<Rightarrow> 'a \<Rightarrow> 'a" where
  "nullish a d = (case a of None \<Rightarrow> d | Some v \<Rightarrow> v)"

text \<open>A \<^verbatim>\<open>string | undefined\<close> is truthy when it is a non-empty string.\<close>

definition truthyStr :: "string option \<Rightarrow> bool" where
  "truthyStr s = (case s of None \<Rightarrow> False | Some v \<Rightarrow> v \<noteq> [])"

text \<open>Values that user code evaluates to, and values that are thrown.\<close>

datatype jsValue =
    JSString string
  | JSNumber int
  | JSBoolean bool
  | JSUndefined
  | JSObject string

datatype thrown =
    TypeError string
  | TSError string
  | OtherError string

fun isTSError :: "thrown \<Rightarrow> bool" where
  "isTSError (TSError m) = True"
| "isTSError (TypeError m) = False"
| "isTSError (OtherError m) = False"

text \<open>The three virtual files of \<^verbatim>\<open>phase4\<close>: \<^verbatim>\<open>[eval]\<close>, \<^verbatim>\<open>[stdin]\<close> and \<^verbatim>\<open><repl>\<close>.\<close>

datatype virtualFile = EvalFile | StdinFile | ReplFile

text \<open>
  What the standard input stream emits once handlers are registered.  \<open>Data\<close> carries the
  text that \<^verbatim>\<open>buffer += chunk\<close> appends for the chunk.
\<close>

datatype stdinEvent = Data string | End

subsection \<open>The data of the pipeline\<close>

text \<open>
  The flags that \<^verbatim>\<open>phase3\<close> hands to \<^verbatim>\<open>findAndReadConfig\<close> exactly as \<^verbatim>\<open>parseArgv\<close>
  returned them.
\<close>

record projectFlags =
  emit :: "bool option"
  files :: "bool option"
  pretty :: "bool option"
  typeCheck :: "bool option"
  swc :: "bool option"
  compilerHost :: "bool option"
  ignore :: "string list option"
  preferTsExts :: "bool option"
  logError :: "bool option"
  project :: "string option"
  skipProject :: "bool option"
  skipIgnore :: "bool option"
  compiler :: "string option"
  ignoreDiagnostics :: "string list option"
  compilerOptions :: "string option"
  scope :: "bool option"
  scopeDir :: "string option"
  experimentalSpecifierResolution :: "string option"

text \<open>
  The result of \<^verbatim>\<open>parseArgv\<close> (lines 274-311).  \<open>help'\<close> is the field \<^verbatim>\<open>help\<close> and
  \<open>parsed_restArgs\<close> the field \<^verbatim>\<open>restArgs\<close>; the eighteen flags above are the field
  \<open>projectFlags\<close>.  \<^verbatim>\<open>help\<close>, \<^verbatim>\<open>version\<close>, \<^verbatim>\<open>print\<close>, \<^verbatim>\<open>interactive\<close> and
  \<^verbatim>\<open>argsRequire\<close> have defaults there, so they are never \<^verbatim>\<open>undefined\<close>.
\<close>

record parseArgvResult =
  parsed_restArgs :: "string list"
  cwdArg :: "string option"
  help' :: bool
  scriptMode :: "bool option"
  cwdMode :: "bool option"
  version :: nat
  showConfig :: "bool option"
  argsRequire :: "string list"
  code :: "string option"
  print :: bool
  interactive :: bool
  transpileOnly :: "bool option"
  transpiler :: "string option"
  noExperimentalReplAwait :: "bool option"
  esm :: "bool option"
  projectFlags :: projectFlags

text \<open>The argument of \<^verbatim>\<open>findAndReadConfig\<close>, as \<^verbatim>\<open>phase3\<close> builds it (lines 422-454).\<close>

record configInput =
  cfg_cwd :: string
  cfg_transpileOnly :: "bool option"
  cfg_experimentalReplAwait :: "bool option"
  cfg_transpiler :: "string option"
  cfg_projectSearchDir :: string
  cfg_require :: "string list"
  cfg_esm :: "bool option"
  cfg_flags :: projectFlags

text \<open>
  The configuration \<^verbatim>\<open>findAndReadConfig\<close> returns.  The file reads \<^verbatim>\<open>options.esm\<close> and
  overwrites the hooks \<^verbatim>\<open>options.readFile\<close>, \<^verbatim>\<open>options.fileExists\<close> and
  \<^verbatim>\<open>options.tsTrace\<close>; everything else is carried along unread (\<open>optOther\<close>,
  \<open>configOther\<close>).  A hook taken from the eval-aware host is named by the virtual files that
  host knows.
\<close>

record registerOptions =
  optEsm :: "bool option"
  optReadFile :: "virtualFile list option"
  optFileExists :: "virtualFile list option"
  optTsTrace :: "string option"
  optOther :: string

record preloadedConfig =
  options :: registerOptions
  configOther :: string

record phase2Result =
  resolutionCwd :: string

record phase3Result =
  preloadedConfig :: preloadedConfig
  enableEsmLoader :: bool

text \<open>
  \<^verbatim>\<open>BootstrapState\<close> (lines 65-69), the argument of \<^verbatim>\<open>bootstrap\<close>.  The interface has a
  third, optional field \<^verbatim>\<open>phase3Result\<close>, which the file neither reads nor writes.
\<close>

record BootstrapState =
  parseArgvResult :: parseArgvResult
  phase2Result :: "phase2Result option"

text \<open>
  \<^verbatim>\<open>BootstrapStateForForkedProcesses\<close> (lines 78-88): the two fields of the interface and
  nothing else.
\<close>

record BootstrapStateForForkedProcesses =
  fork_restArgs :: "string list"
  fork_phase3Result :: phase3Result

text \<open>
  The state object that \<^verbatim>\<open>completeBootstrap\<close>, \<^verbatim>\<open>phase3\<close> and \<^verbatim>\<open>phase4\<close> receive.  Its
  TypeScript types are \<^verbatim>\<open>BootstrapStateInitialProcess\<close> (lines 90-95) and
  \<^verbatim>\<open>BootstrapStateForChild\<close> (lines 97-98); at run time it is one object whose fields other
  than \<^verbatim>\<open>restArgs\<close> may be missing, and a missing field is \<open>None\<close>.
\<close>

record BootstrapStateForChild =
  restArgs :: "string list"
  initialArgv :: "parseArgvResult option"
  initialResolutionCwd :: "string option"
  phase3Result :: "phase3Result option"

text \<open>The object \<^verbatim>\<open>getEntryPointInfo\<close> returns (lines 502-508).\<close>

record EntryPointInfo =
  executeEval :: bool
  executeEntrypoint :: bool
  executeRepl :: "bool option"
  executeStdin :: bool
  entryPointPath :: "string option"

text \<open>The compiler service, as far as \<^verbatim>\<open>phase4\<close> reads it.\<close>

record service =
  ts_version :: string
  compilerPath :: "string option"
  hasConvertToTSConfig :: bool

subsection \<open>Effects\<close>

datatype event =
    ConsoleLog string
  | ConsoleError string
  | ConsoleErrorThrown thrown
  | InstallExtension string
  | DeleteExtension string
  | RequireResolve string
  | FindAndReadConfig configInput
  | CallInChildWithEsm BootstrapStateForChild string
  | CreateRepl virtualFile string
  | CreateFromPreloadedConfig preloadedConfig
  | Register
  | LateBindHooks
  | SetService virtualFile
  | PushExecArgv "string list"
  | SetProcessArgv "string list"
  | RunMain
  | RunMainHack string
  | AddBuiltinLibsToObject
  | SetupContext virtualFile
  | EvalCode virtualFile string
  | ReplStart

text \<open>
  A call either returns a value, ends the process (\<^verbatim>\<open>process.exit\<close>) or throws.  A run is
  the trace of events up to that point, with the outcome.
\<close>

datatype 'a outcome = Return 'a | Exit nat | Throw thrown

type_synonym 'a run = "event list \<times> 'a outcome"

definition andThen :: "'a run \<Rightarrow> ('a \<Rightarrow> 'b run) \<Rightarrow> 'b run" where
  "andThen m f =
     (case m of
        (t, Return a) \<Rightarrow> (case f a of (t', r) \<Rightarrow> (t @ t', r))
      | (t, Exit n) \<Rightarrow> (t, Exit n)
      | (t, Throw e) \<Rightarrow> (t, Throw e))"

definition ret :: "'a \<Rightarrow> 'a run" where
  "ret a = ([], Return a)"

definition effects :: "event list \<Rightarrow> unit run" where
  "effects es = (es, Return ())"

text \<open>The result of a collaborator that may throw.\<close>

definition called :: "thrown + 'a \<Rightarrow> 'a outcome" where
  "called r = (case r of Inl e \<Rightarrow> Throw e | Inr v \<Rightarrow> Return v)"

subsection \<open>The host\<close>

text \<open>
  What the file takes from Node and from the modules it imports: \<^verbatim>\<open>process.cwd()\<close>,
  \<^verbatim>\<open>process.stdin.isTTY\<close>, the events of \<^verbatim>\<open>process.stdin\<close>, \<^verbatim>\<open>process.argv[1]\<close>,
  \<^verbatim>\<open>process.version\<close>, \<^verbatim>\<open>process.versions.node\<close>, \<^verbatim>\<open>__dirname\<close>; \<^verbatim>\<open>resolve\<close>,
  \<^verbatim>\<open>dirname\<close> and \<^verbatim>\<open>join\<close> of \<^verbatim>\<open>path\<close>; \<^verbatim>\<open>inspect\<close> of \<^verbatim>\<open>util\<close> (with the colour
  option already applied); the own keys of \<^verbatim>\<open>require.extensions\<close> and Node's resolver
  behind \<^verbatim>\<open>requireResolveNonCached\<close> (given the extensions registered at the call);
  \<^verbatim>\<open>VERSION\<close>, \<^verbatim>\<open>findAndReadConfig\<close>, \<^verbatim>\<open>createFromPreloadedConfig\<close>, \<^verbatim>\<open>versionGteLt\<close>,
  \<^verbatim>\<open>getChildProcessArguments\<close>, the file names of the virtual files, \<^verbatim>\<open>evalCode\<close> of the
  REPL service of a virtual file, the text \<^verbatim>\<open>--showConfig\<close> prints, and
  \<^verbatim>\<open>DEFAULTS.tsTrace\<close>.
\<close>

record host =
  cwd :: string
  stdinIsTTY :: "bool option"
  stdin :: "stdinEvent list"
  argv1 :: string
  processVersion :: string
  nodeVersion :: string
  moduleDirname :: string
  resolve :: "string list \<Rightarrow> string"
  dirname :: "string \<Rightarrow> string"
  join :: "string list \<Rightarrow> string"
  inspect :: "jsValue \<Rightarrow> string"
  requireExtensions :: "string list"
  requireResolveNonCached :: "string list \<Rightarrow> string \<Rightarrow> thrown + string"
  VERSION :: string
  findAndReadConfig :: "configInput \<Rightarrow> thrown + preloadedConfig"
  createFromPreloadedConfig :: "preloadedConfig \<Rightarrow> thrown + service"
  versionGteLt :: "string \<Rightarrow> string \<Rightarrow> bool"
  getChildProcessArguments :: "bool \<Rightarrow> BootstrapStateForForkedProcesses \<Rightarrow> string \<times> string list"
  virtualFilename :: "virtualFile \<Rightarrow> string"
  evalCode :: "virtualFile \<Rightarrow> string \<Rightarrow> thrown + jsValue"
  showConfigJson :: "service \<Rightarrow> string \<Rightarrow> string"
  defaultTsTrace :: "string option"

subsection \<open>getEntryPointInfo (lines 477-509)\<close>

text \<open>
  The second parameter of the source is an object with the fields \<^verbatim>\<open>code\<close>,
  \<^verbatim>\<open>interactive\<close> and \<^verbatim>\<open>restArgs\<close>; here they are three arguments.  \<^verbatim>\<open>code != null\<close> is
  \<open>code \<noteq> None\<close>, and the number \<^verbatim>\<open>restArgs.length\<close> is truthy when it is not zero.
  \<^verbatim>\<open>restArgs[0]\<close> is read only when \<^verbatim>\<open>executeEntrypoint\<close> holds, where the list is not
  empty.
\<close>

definition getEntryPointInfo ::
  "host \<Rightarrow> string \<Rightarrow> string option \<Rightarrow> bool option \<Rightarrow> string list \<Rightarrow> EntryPointInfo" where
  "getEntryPointInfo h resolutionCwd' code' interactive' restArgs' =
     (let executeEval' = (code' \<noteq> None \<and> \<not> (truthy interactive' \<and> length restArgs' \<noteq> 0));
          executeEntrypoint' = (\<not> executeEval' \<and> length restArgs' > 0);
          executeRepl' =
            js_and (Some (\<not> executeEntrypoint'))
              (js_or interactive' (js_and (stdinIsTTY h) (Some (\<not> executeEval'))));
          executeStdin' = (\<not> executeEval' \<and> \<not> truthy executeRepl' \<and> \<not> executeEntrypoint');
          entryPointPath' =
            (if executeEntrypoint' then Some (resolve h [resolutionCwd', restArgs' ! 0]) else None)
      in \<lparr> executeEval = executeEval',
           executeEntrypoint = executeEntrypoint',
           executeRepl = executeRepl',
           executeStdin = executeStdin',
           entryPointPath = entryPointPath' \<rparr>)"

subsection \<open>phase2 (lines 314-379)\<close>

definition usageLines :: "string list" where
  "usageLines =
   [''Usage: ts-node [options] [ -e script | script.ts ] [arguments]'',
    [],
    ''Options:'',
    [],
    ''  -e, --eval [code]               Evaluate code'',
    ''  -p, --print                     Print result of `--eval`'',
    ''  -r, --require [path]            Require a node module before execution'',
    ''  -i, --interactive               Opens the REPL even if stdin does not appear to be a terminal'',
    [],
    ''  --esm                           Bootstrap with the ESM loader, enabling full ESM support'',
    ''  --swc                           Use the faster swc transpiler'',
    [],
    ''  -h, --help                      Print CLI usage'',
    ''  -v, --version                   Print module version information.  -vvv to print additional information'',
    ''  --showConfig                    Print resolved configuration and exit'',
    [],
    ''  -T, --transpileOnly             Use TypeScript's faster `transpileModule` or a third-party transpiler'',
    ''  -H, --compilerHost              Use TypeScript's compiler host API'',
    ''  -I, --ignore [pattern]          Override the path patterns to skip compilation'',
    ''  -P, --project [path]            Path to TypeScript JSON project file'',
    ''  -C, --compiler [name]           Specify a custom TypeScript compiler'',
    ''  --transpiler [name]             Specify a third-party, non-typechecking transpiler'',
    ''  -D, --ignoreDiagnostics [code]  Ignore TypeScript warnings by diagnostic code'',
    ''  -O, --compilerOptions [opts]    JSON object to merge with compiler options'',
    [],
    ''  --cwd                           Behave as if invoked within this working directory.'',
    ''  --files                         Load `files`, `include` and `exclude` from `tsconfig.json` on startup'',
    ''  --pretty                        Use pretty diagnostic formatter (usually enabled by default)'',
    ''  --cwdMode                       Use current directory instead of <script.ts> for config resolution'',
    ''  --skipProject                   Skip reading `tsconfig.json`'',
    ''  --skipIgnore                    Skip `--ignore` checks'',
    ''  --emit                          Emit output files into `.ts-node` directory'',
    ''  --scope                         Scope compiler to files within `scopeDir`.  Anything outside this directory is ignored.'',
    ''  --scopeDir                      Directory for `--scope`'',
    ''  --preferTsExts                  Prefer importing TypeScript files over JavaScript files'',
    ''  --logError                      Logs TypeScript errors to stderr instead of throwing exceptions'',
    ''  --noExperimentalReplAwait       Disable top-level await in REPL.  Equivalent to node's --no-experimental-repl-await'',
    ''  --experimentalSpecifierResolution [node|explicit]'',
    ''                                  Equivalent to node's --experimental-specifier-resolution'']"

text \<open>The template literal of line 318: a line break, then each line with its line break.\<close>

definition usage :: string where
  "usage = concat (map (\<lambda>l. l @ [CHR 0x0A]) ([] # usageLines))"

definition phase2 :: "host \<Rightarrow> BootstrapState \<Rightarrow> phase2Result run" where
  "phase2 h payload =
     (let a = parseArgvResult payload in
      if help' a then ([ConsoleLog usage], Exit 0)
      else if version a = 1 then ([ConsoleLog (''v'' @ VERSION h)], Exit 0)
      else ret \<lparr> resolutionCwd =
                   (case cwdArg a of Some c \<Rightarrow> resolve h [c] | None \<Rightarrow> cwd h) \<rparr>)"

subsection \<open>getProjectSearchDir (lines 757-800)\<close>

text \<open>
  The extensions that are not yet keys of \<^verbatim>\<open>require.extensions\<close> are installed, the
  script is resolved, and the \<^verbatim>\<open>finally\<close> block deletes them again whether or not the
  resolver threw.  \<^verbatim>\<open>scriptPath!\<close> is reached only with a truthy \<^verbatim>\<open>scriptPath\<close>.
\<close>

definition exts :: "string list" where
  "exts = [''.js'', ''.jsx'', ''.ts'', ''.tsx'']"

definition getProjectSearchDir ::
  "host \<Rightarrow> string \<Rightarrow> bool option \<Rightarrow> bool option \<Rightarrow> string option \<Rightarrow> string run" where
  "getProjectSearchDir h cwd' scriptMode' cwdMode' scriptPath =
     (if truthy scriptMode' \<and> truthy cwdMode' then
        ([], Throw (TypeError ''--cwd-mode cannot be combined with --script-mode''))
      else if truthy scriptMode' \<and> \<not> truthyStr scriptPath then
        ([], Throw (TypeError
          ''--script-mode must be used with a script name, e.g. `ts-node --script-mode <script.ts>`''))
      else
        (let doScriptMode =
               (if scriptMode' = Some True then True
                else if cwdMode' = Some True then False
                else truthyStr scriptPath)
         in if doScriptMode then
              (case scriptPath of
                 None \<Rightarrow> ([], Throw (TypeError ''scriptPath is undefined''))
               | Some p \<Rightarrow>
                   (let extsTemporarilyInstalled =
                          filter (\<lambda>ext. ext \<notin> set (requireExtensions h)) exts
                    in (map InstallExtension extsTemporarilyInstalled
                          @ [RequireResolve p]
                          @ map DeleteExtension extsTemporarilyInstalled,
                        case requireResolveNonCached h
                               (requireExtensions h @ extsTemporarilyInstalled) p of
                          Inl e \<Rightarrow> Throw e
                        | Inr resolved \<Rightarrow> Return (dirname h resolved))))
            else ret cwd'))"

subsection \<open>phase3 (lines 381-460)\<close>

text \<open>
  The parameter has type \<^verbatim>\<open>BootstrapStateInitialProcess\<close>, whose fields \<^verbatim>\<open>initialArgv\<close>
  and \<^verbatim>\<open>initialResolutionCwd\<close> are required; destructuring a missing \<^verbatim>\<open>initialArgv\<close>
  throws a \<^verbatim>\<open>TypeError\<close>.  A state with \<^verbatim>\<open>initialArgv\<close> and no
  \<^verbatim>\<open>initialResolutionCwd\<close> is outside that type and no caller builds it; the code would
  go on there with an undefined directory, and the model throws as well.  The
  properties of the object literal are evaluated in order, so \<^verbatim>\<open>getProjectSearchDir\<close> has
  returned or thrown before \<^verbatim>\<open>findAndReadConfig\<close> is called.  Line 427 parses as
  \<^verbatim>\<open>(transpileOnly ?? (transpiler != null)) ? true : undefined\<close>.
\<close>

definition configInputOf :: "parseArgvResult \<Rightarrow> string \<Rightarrow> string \<Rightarrow> configInput" where
  "configInputOf a resolutionCwd' projectSearchDir =
     \<lparr> cfg_cwd = resolutionCwd',
       cfg_transpileOnly =
         (if (case transpileOnly a of Some b \<Rightarrow> b | None \<Rightarrow> transpiler a \<noteq> None)
          then Some True else None),
       cfg_experimentalReplAwait =
         (if truthy (noExperimentalReplAwait a) then Some False else None),
       cfg_transpiler = transpiler a,
       cfg_projectSearchDir = projectSearchDir,
       cfg_require = argsRequire a,
       cfg_esm = esm a,
       cfg_flags = projectFlags a \<rparr>"

definition phase3 :: "host \<Rightarrow> BootstrapStateForChild \<Rightarrow> phase3Result run" where
  "phase3 h payload =
     (case (initialArgv payload, initialResolutionCwd payload) of
        (Some a, Some resolutionCwd') \<Rightarrow>
          (let info = getEntryPointInfo h resolutionCwd' (code a) (Some (interactive a))
                        (parsed_restArgs a)
           in andThen
                (getProjectSearchDir h resolutionCwd' (scriptMode a) (cwdMode a)
                   (entryPointPath info))
                (\<lambda>projectSearchDir.
                   (let input = configInputOf a resolutionCwd' projectSearchDir
                    in andThen ([FindAndReadConfig input], called (findAndReadConfig h input))
                         (\<lambda>config.
                            ret \<lparr> preloadedConfig = config,
                                  enableEsmLoader =
                                    (truthy (optEsm (options config)) \<or> truthy (esm a)) \<rparr>))))
      | _ \<Rightarrow> ([], Throw (TypeError ''payload is not a BootstrapStateInitialProcess'')))"

subsection \<open>evalAndExitOnTsError (lines 830-858)\<close>

text \<open>
  The parameters \<^verbatim>\<open>replService\<close>, \<^verbatim>\<open>module\<close> and \<^verbatim>\<open>filenameAndDirname\<close> of the source
  all belong to one virtual file, the argument \<open>file\<close>.
\<close>

definition evalAndExitOnTsError :: "host \<Rightarrow> virtualFile \<Rightarrow> string \<Rightarrow> bool \<Rightarrow> unit run" where
  "evalAndExitOnTsError h file code' isPrinted =
     andThen (effects [SetupContext file, EvalCode file code'])
       (\<lambda>_. case evalCode h file code' of
               Inl error \<Rightarrow>
                 (if isTSError error then ([ConsoleErrorThrown error], Exit 1)
                  else ([], Throw error))
             | Inr result \<Rightarrow>
                 (if isPrinted then
                    effects [ConsoleLog (case result of JSString s \<Rightarrow> s | _ \<Rightarrow> inspect h result)]
                  else ret ()))"

subsection \<open>createBootstrapStateForChildProcess (lines 740-752)\<close>

text \<open>
  \<^verbatim>\<open>state.phase3Result!\<close> asserts that the field is there; reading a property of
  \<^verbatim>\<open>undefined\<close> throws a \<^verbatim>\<open>TypeError\<close>.
\<close>

definition createBootstrapStateForChildProcess ::
  "BootstrapStateForChild \<Rightarrow> thrown + BootstrapStateForForkedProcesses" where
  "createBootstrapStateForChildProcess state =
     (case phase3Result state of
        None \<Rightarrow> Inl (TypeError ''Cannot read properties of undefined'')
      | Some r \<Rightarrow>
          Inr \<lparr> fork_restArgs = restArgs state,
                fork_phase3Result =
                  \<lparr> preloadedConfig = preloadedConfig r,
                    enableEsmLoader = enableEsmLoader r \<rparr> \<rparr>)"

subsection \<open>phase4 (lines 511-738)\<close>

text \<open>The call of \<^verbatim>\<open>getEntryPointInfo\<close> in lines 514-526.\<close>

definition phase4ResolutionCwd :: "host \<Rightarrow> BootstrapStateForChild \<Rightarrow> string" where
  "phase4ResolutionCwd h payload = nullish (initialResolutionCwd payload) (cwd h)"

definition phase4EntryPointInfo :: "host \<Rightarrow> BootstrapStateForChild \<Rightarrow> EntryPointInfo" where
  "phase4EntryPointInfo h payload =
     getEntryPointInfo h (phase4ResolutionCwd h payload)
       (case initialArgv payload of None \<Rightarrow> None | Some a \<Rightarrow> code a)
       (case initialArgv payload of None \<Rightarrow> None | Some a \<Rightarrow> Some (interactive a))
       (restArgs payload)"

text \<open>
  Lines 537-583 create the virtual files in the order eval, stdin, REPL; each
  \<^verbatim>\<open>createRepl\<close> composes the eval-aware host of the one before, and the last one made is
  the host whose hooks the service receives.
\<close>

definition virtualFiles :: "EntryPointInfo \<Rightarrow> virtualFile list" where
  "virtualFiles info =
     (if executeEval info then [EvalFile] else [])
     @ (if executeStdin info then [StdinFile] else [])
     @ (if truthy (executeRepl info) then [ReplFile] else [])"

definition evalAwarePartialHost :: "EntryPointInfo \<Rightarrow> virtualFile list option" where
  "evalAwarePartialHost info =
     (if virtualFiles info = [] then None else Some (virtualFiles info))"

text \<open>Lines 537-607: the virtual files, the compiler service, and their binding.\<close>

definition phase4Service ::
  "host \<Rightarrow> BootstrapStateForChild \<Rightarrow> phase3Result \<Rightarrow> EntryPointInfo \<Rightarrow> service run" where
  "phase4Service h payload p3 info =
     andThen
       (effects (map (\<lambda>f. CreateRepl f (join h [phase4ResolutionCwd h payload, virtualFilename h f]))
                   (virtualFiles info)))
       (\<lambda>_. let config =
                   (preloadedConfig p3)
                     \<lparr> options := (options (preloadedConfig p3))
                          \<lparr> optReadFile := evalAwarePartialHost info,
                            optFileExists := evalAwarePartialHost info,
                            optTsTrace := defaultTsTrace h \<rparr> \<rparr>
             in andThen ([CreateFromPreloadedConfig config], called (createFromPreloadedConfig h config))
                  (\<lambda>service'.
                     andThen
                       (effects
                          ([Register]
                           @ (if enableEsmLoader p3 then [LateBindHooks] else [])
                           @ (if truthy (executeRepl info) then [SetService ReplFile] else [])
                           @ (if executeEval info then [SetService EvalFile] else [])
                           @ (if executeStdin info then [SetService StdinFile] else [])))
                       (\<lambda>_. ret service')))"

text \<open>Lines 609-623: \<^verbatim>\<open>-vv\<close> and \<^verbatim>\<open>-vvv\<close>.\<close>

definition phase4Version :: "host \<Rightarrow> BootstrapStateForChild \<Rightarrow> service \<Rightarrow> unit run" where
  "phase4Version h payload service' =
     (case initialArgv payload of
        None \<Rightarrow> ret ()
      | Some a \<Rightarrow>
          if version a = 2 then
            ([ConsoleLog (''ts-node v'' @ VERSION h),
              ConsoleLog (''node '' @ processVersion h),
              ConsoleLog (''compiler v'' @ ts_version service')], Exit 0)
          else if version a \<ge> 3 then
            ([ConsoleLog (''ts-node v'' @ VERSION h @ '' '' @ dirname h (moduleDirname h)),
              ConsoleLog (''node '' @ processVersion h),
              ConsoleLog (''compiler v'' @ ts_version service' @ '' ''
                            @ nullish (compilerPath service') [])], Exit 0)
          else ret ())"

text \<open>
  Lines 625-672: \<^verbatim>\<open>--showConfig\<close>.  The JSON text that is printed is the host's
  \<open>showConfigJson\<close> of the service and the resolution directory.
\<close>

definition phase4ShowConfig :: "host \<Rightarrow> BootstrapStateForChild \<Rightarrow> service \<Rightarrow> unit run" where
  "phase4ShowConfig h payload service' =
     (if truthy (case initialArgv payload of None \<Rightarrow> None | Some a \<Rightarrow> showConfig a) then
        (if \<not> hasConvertToTSConfig service' then
           ([ConsoleError
               ''Error: --showConfig requires a typescript versions >=3.2 that support --showConfig''],
            Exit 1)
         else ([ConsoleLog (showConfigJson h service' (phase4ResolutionCwd h payload))], Exit 0))
      else ret ())"

text \<open>Lines 674-692: the state for forked processes, \<^verbatim>\<open>process.execArgv\<close>, \<^verbatim>\<open>process.argv\<close>.\<close>

definition phase4Argv ::
  "host \<Rightarrow> BootstrapStateForChild \<Rightarrow> phase3Result \<Rightarrow> EntryPointInfo \<Rightarrow> unit run" where
  "phase4Argv h payload p3 info =
     andThen ([], called (createBootstrapStateForChildProcess payload))
       (\<lambda>forkPersistentBootstrapState.
          (case getChildProcessArguments h (enableEsmLoader p3) forkPersistentBootstrapState of
             (childScriptPath, childScriptArgs) \<Rightarrow>
               effects
                 [PushExecArgv (childScriptPath # childScriptArgs),
                  SetProcessArgv
                    ([argv1 h]
                     @ (if executeEntrypoint info
                        then (case entryPointPath info of Some p \<Rightarrow> [p] | None \<Rightarrow> [])
                        else [])
                     @ drop (if executeEntrypoint info then 1 else 0) (restArgs payload))]))"

text \<open>
  Lines 723-736: the handlers registered on \<^verbatim>\<open>process.stdin\<close>, run over the events the
  stream emits.  A \<^verbatim>\<open>data\<close> event appends its chunk to the buffer; the \<^verbatim>\<open>end\<close> event
  evaluates the buffer, and the stream emits nothing after it.  A stream that never ends
  evaluates nothing.
\<close>

fun stdinHandlers :: "host \<Rightarrow> bool \<Rightarrow> string \<Rightarrow> stdinEvent list \<Rightarrow> unit run" where
  "stdinHandlers h isPrinted buffer [] = ret ()"
| "stdinHandlers h isPrinted buffer (Data chunk # es) =
     stdinHandlers h isPrinted (buffer @ chunk) es"
| "stdinHandlers h isPrinted buffer (End # es) =
     evalAndExitOnTsError h StdinFile buffer isPrinted"

text \<open>The initial value of \<^verbatim>\<open>buffer\<close> in line 724.\<close>

definition stdinSeed :: "BootstrapStateForChild \<Rightarrow> string" where
  "stdinSeed payload =
     nullish (case initialArgv payload of None \<Rightarrow> None | Some a \<Rightarrow> code a) []"

text \<open>
  Lines 694-737.  \<^verbatim>\<open>payload.initialArgv!.code!\<close> is read only when \<^verbatim>\<open>executeEval\<close>
  holds, where the code is there.
\<close>

definition phase4Execute ::
  "host \<Rightarrow> BootstrapStateForChild \<Rightarrow> phase3Result \<Rightarrow> EntryPointInfo \<Rightarrow> unit run" where
  "phase4Execute h payload p3 info =
     (if executeEntrypoint info then
        (if enableEsmLoader p3 \<and> versionGteLt h (nodeVersion h) ''18.6.0'' then
           (case entryPointPath info of
              Some p \<Rightarrow> effects [RunMainHack p]
            | None \<Rightarrow> ([], Throw (TypeError ''entryPointPath is undefined'')))
         else effects [RunMain])
      else
        andThen
          (if executeEval info then
             (case initialArgv payload of
                None \<Rightarrow> ([AddBuiltinLibsToObject], Throw (TypeError ''initialArgv is undefined''))
              | Some a \<Rightarrow>
                  (case code a of
                     None \<Rightarrow> ([AddBuiltinLibsToObject], Throw (TypeError ''code is undefined''))
                   | Some c \<Rightarrow>
                       andThen (effects [AddBuiltinLibsToObject])
                         (\<lambda>_. evalAndExitOnTsError h EvalFile c (print a))))
           else ret ())
          (\<lambda>_. andThen
                  (if truthy (executeRepl info) then effects [ReplStart] else ret ())
                  (\<lambda>_. if executeStdin info then
                          stdinHandlers h
                            (case initialArgv payload of None \<Rightarrow> False | Some a \<Rightarrow> print a)
                            (stdinSeed payload) (stdin h)
                        else ret ())))"

definition phase4 :: "host \<Rightarrow> BootstrapStateForChild \<Rightarrow> unit run" where
  "phase4 h payload =
     (case phase3Result payload of
        None \<Rightarrow> ([], Throw (TypeError ''payload.phase3Result is undefined''))
      | Some p3 \<Rightarrow>
          (let info = phase4EntryPointInfo h payload
           in andThen (phase4Service h payload p3 info)
                (\<lambda>service'.
                   andThen (phase4Version h payload service')
                     (\<lambda>_. andThen (phase4ShowConfig h payload service')
                             (\<lambda>_. andThen (phase4Argv h payload p3 info)
                                     (\<lambda>_. phase4Execute h payload p3 info))))))"

subsection \<open>completeBootstrap (lines 130-147) and bootstrap (lines 101-128)\<close>

definition completeBootstrap :: "host \<Rightarrow> BootstrapStateForChild \<Rightarrow> unit run" where
  "completeBootstrap h state =
     (case phase3Result state of
        None \<Rightarrow> andThen (phase3 h state) (\<lambda>r. phase4 h (state \<lparr> phase3Result := Some r \<rparr>))
      | Some _ \<Rightarrow> phase4 h state)"

text \<open>
  \<^verbatim>\<open>callInChildWithEsm\<close> is a collaborator: the call is the event \<open>CallInChildWithEsm\<close> with
  the state and the directory it is given.  Both calls pass \<^verbatim>\<open>initialProcessState\<close>, the
  object built in lines 104-108.  The assignment \<^verbatim>\<open>state.phase2Result = phase2(state)\<close> is
  the binding of \<open>p2\<close>; \<^verbatim>\<open>bootstrap\<close> returns nothing.
\<close>

definition initialProcessState :: "parseArgvResult \<Rightarrow> phase2Result \<Rightarrow> BootstrapStateForChild" where
  "initialProcessState a p2 =
     \<lparr> restArgs = parsed_restArgs a,
       initialArgv = Some a,
       initialResolutionCwd = Some (resolutionCwd p2),
       phase3Result = None \<rparr>"

definition bootstrap :: "host \<Rightarrow> BootstrapState \<Rightarrow> unit run" where
  "bootstrap h state =
     andThen (phase2 h state)
       (\<lambda>p2. let st = initialProcessState (parseArgvResult state) p2
             in if truthy (esm (parseArgvResult state)) then
                  effects [CallInChildWithEsm st (cwd h)]
                else
                  andThen (phase3 h st)
                    (\<lambda>phase3Result'.
                       if enableEsmLoader phase3Result' then
                         effects [CallInChildWithEsm st (cwd h)]
                       else completeBootstrap h (st \<lparr> phase3Result := Some phase3Result' \<rparr>)))"

subsection \<open>The payload of a forked process\<close>

text \<open>
  A value of type \<^verbatim>\<open>BootstrapStateForForkedProcesses\<close> as \<^verbatim>\<open>completeBootstrap\<close> and
  \<^verbatim>\<open>phase4\<close> receive it (the cast in lines 141-146): \<^verbatim>\<open>BootstrapStateForChild\<close> is that
  type with the fields of the initial process optional, and an object with only the two
  fields has them \<^verbatim>\<open>undefined\<close>.  This is the payload of a process that starts from the
  state for forked processes (lines 71-77 and 682-686).
\<close>

definition forkedProcessPayload :: "BootstrapStateForForkedProcesses \<Rightarrow> BootstrapStateForChild" where
  "forkedProcessPayload f =
     \<lparr> restArgs = fork_restArgs f,
       initialArgv = None,
       initialResolutionCwd = None,
       phase3Result = Some (fork_phase3Result f) \<rparr>"

text \<open>The state of a run that has no inline code: the field \<^verbatim>\<open>code\<close> is removed.\<close>

definition withoutCode :: "BootstrapStateForChild \<Rightarrow> BootstrapStateForChild" where
  "withoutCode state =
     state \<lparr> initialArgv := map_option (\<lambda>a. a \<lparr> code := None \<rparr>) (initialArgv state) \<rparr>"

subsection \<open>Calls of the configuration reader in a trace\<close>

text \<open>The arguments of the calls of \<^verbatim>\<open>findAndReadConfig\<close> that a trace records, in order.\<close>

fun lookupOf :: "event \<Rightarrow> configInput list" where
  "lookupOf (FindAndReadConfig i) = [i]"
| "lookupOf _ = []"

definition configLookups :: "event list \<Rightarrow> configInput list" where
  "configLookups t = concat (map lookupOf t)"

section \<open>Concrete inputs\<close>

text \<open>
  A host and states on which the theorems below are evaluated.  The host resolves a path
  by joining its segments, its configuration reader returns a configuration without
  \<^verbatim>\<open>esm\<close>, and its standard input is piped: two chunks, then the end of the stream.
\<close>

definition exampleResolve :: "string list \<Rightarrow> string" where
  "exampleResolve segments =
     (case segments of
        [] \<Rightarrow> ''/work''
      | [a] \<Rightarrow> a
      | a # b # _ \<Rightarrow> a @ ''/'' @ b)"

definition exampleConfig :: "bool option \<Rightarrow> preloadedConfig" where
  "exampleConfig e =
     \<lparr> options = \<lparr> optEsm = e, optReadFile = None, optFileExists = None,
                   optTsTrace = None, optOther = ''{}'' \<rparr>,
       configOther = ''tsconfig.json'' \<rparr>"

definition exampleService :: service where
  "exampleService = \<lparr> ts_version = ''4.7.4'', compilerPath = None, hasConvertToTSConfig = True \<rparr>"

definition exampleEvalCode :: "virtualFile \<Rightarrow> string \<Rightarrow> thrown + jsValue" where
  "exampleEvalCode file text =
     (if text = ''1+1'' then Inr (JSNumber 2)
      else if text = ''type error'' then Inl (TSError ''TS2322'')
      else if text = ''throw'' then Inl (OtherError ''x'')
      else Inr (JSString text))"

definition exampleHost :: host where
  "exampleHost =
     \<lparr> cwd = ''/work'',
       stdinIsTTY = None,
       stdin = [Data ''1'', Data ''+1'', End],
       argv1 = ''/bin/ts-node'',
       processVersion = ''v18.0.0'',
       nodeVersion = ''18.0.0'',
       moduleDirname = ''/lib/dist'',
       resolve = exampleResolve,
       dirname = (\<lambda>p. ''/work''),
       join = exampleResolve,
       inspect = (\<lambda>v. case v of JSNumber n \<Rightarrow> (if n = 2 then ''2'' else ''number'') | _ \<Rightarrow> ''value''),
       requireExtensions = [''.js''],
       requireResolveNonCached = (\<lambda>es p. Inr p),
       VERSION = ''10.9.1'',
       findAndReadConfig = (\<lambda>i. Inr (exampleConfig None)),
       createFromPreloadedConfig = (\<lambda>c. Inr exampleService),
       versionGteLt = (\<lambda>v w. False),
       getChildProcessArguments = (\<lambda>e s. (''child.js'', [''state''])),
       virtualFilename = (\<lambda>f. case f of EvalFile \<Rightarrow> ''[eval].ts'' | StdinFile \<Rightarrow> ''[stdin].ts'' | ReplFile \<Rightarrow> ''<repl>.ts''),
       evalCode = exampleEvalCode,
       showConfigJson = (\<lambda>s d. ''{}''),
       defaultTsTrace = None \<rparr>"

definition noProjectFlags :: projectFlags where
  "noProjectFlags =
     \<lparr> emit = None, files = None, pretty = None, typeCheck = None, swc = None,
       compilerHost = None, ignore = None, preferTsExts = None, logError = None,
       project = None, skipProject = None, skipIgnore = None, compiler = None,
       ignoreDiagnostics = None, compilerOptions = None, scope = None, scopeDir = None,
       experimentalSpecifierResolution = None \<rparr>"

definition exampleArgv :: "string list \<Rightarrow> parseArgvResult" where
  "exampleArgv rest =
     \<lparr> parsed_restArgs = rest, cwdArg = None, help' = False, scriptMode = None,
       cwdMode = None, version = 0, showConfig = None, argsRequire = [], code = None,
       print = False, interactive = False, transpileOnly = None, transpiler = None,
       noExperimentalReplAwait = None, esm = None, projectFlags = noProjectFlags \<rparr>"

definition exampleState :: "parseArgvResult \<Rightarrow> BootstrapStateForChild" where
  "exampleState a =
     \<lparr> restArgs = parsed_restArgs a, initialArgv = Some a,
       initialResolutionCwd = Some ''/work'', phase3Result = None \<rparr>"

definition esmConfigHost :: host where
  "esmConfigHost = exampleHost \<lparr> findAndReadConfig := (\<lambda>i. Inr (exampleConfig (Some True))) \<rparr>"

definition brokenResolverHost :: host where
  "brokenResolverHost =
     exampleHost \<lparr> requireResolveNonCached := (\<lambda>es p. Inl (OtherError ''MODULE_NOT_FOUND'')) \<rparr>"

definition examplePhase3Result :: phase3Result where
  "examplePhase3Result =
     \<lparr> preloadedConfig = exampleConfig None, enableEsmLoader = False \<rparr>"

definition stdinState :: BootstrapStateForChild where
  "stdinState =
     (exampleState ((exampleArgv []) \<lparr> print := True \<rparr>))
       \<lparr> phase3Result := Some examplePhase3Result \<rparr>"

definition versionState :: "nat \<Rightarrow> BootstrapStateForChild" where
  "versionState n =
     (exampleState ((exampleArgv []) \<lparr> version := n \<rparr>))
       \<lparr> phase3Result := Some examplePhase3Result \<rparr>"

definition esmFlagState :: BootstrapState where
  "esmFlagState =
     \<lparr> parseArgvResult = (exampleArgv [''script.ts'']) \<lparr> esm := Some True \<rparr>,
       phase2Result = None \<rparr>"

definition interactiveState :: BootstrapStateForChild where
  "interactiveState =
     (exampleState ((exampleArgv []) \<lparr> interactive := True \<rparr>))
       \<lparr> phase3Result := Some examplePhase3Result \<rparr>"

definition hookedPhase3Result :: phase3Result where
  "hookedPhase3Result =
     \<lparr> preloadedConfig =
         (exampleConfig None)
           \<lparr> options := (options (exampleConfig None))
                \<lparr> optReadFile := Some [EvalFile], optFileExists := Some [EvalFile] \<rparr> \<rparr>,
       enableEsmLoader = False \<rparr>"

definition dropHooks :: "BootstrapStateForForkedProcesses \<Rightarrow> BootstrapStateForForkedProcesses" where
  "dropHooks f =
     f \<lparr> fork_phase3Result :=
           (fork_phase3Result f)
             \<lparr> preloadedConfig :=
                 (preloadedConfig (fork_phase3Result f))
                   \<lparr> options := (options (preloadedConfig (fork_phase3Result f)))
                        \<lparr> optReadFile := None, optFileExists := None \<rparr> \<rparr> \<rparr> \<rparr>"

definition interactiveScriptState :: BootstrapStateForChild where
  "interactiveScriptState =
     (exampleState ((exampleArgv [''script.ts'', ''--flag''])
                      \<lparr> code := Some ''1+1'', interactive := True \<rparr>))
       \<lparr> phase3Result := Some hookedPhase3Result \<rparr>"

definition otherDirStdinState :: BootstrapStateForChild where
  "otherDirStdinState =
     (exampleState ((exampleArgv []) \<lparr> cwdArg := Some ''/other'' \<rparr>))
       \<lparr> initialResolutionCwd := Some ''/other'', phase3Result := Some hookedPhase3Result \<rparr>"

definition otherDirState :: BootstrapStateForChild where
  "otherDirState =
     (exampleState ((exampleArgv [''script.ts'']) \<lparr> cwdArg := Some ''/other'' \<rparr>))
       \<lparr> initialResolutionCwd := Some ''/other'', phase3Result := Some examplePhase3Result \<rparr>"

section \<open>Runs\<close>

text \<open>Sequencing stops at the first exit or throw, and traces are concatenated.\<close>

lemma andThen_Return [simp]: "andThen (t, Return a) f = (t @ fst (f a), snd (f a))"
  by (simp add: andThen_def split: prod.splits)

lemma andThen_Exit [simp]: "andThen (t, Exit n) f = (t, Exit n)"
  by (simp add: andThen_def)

lemma andThen_Throw [simp]: "andThen (t, Throw e) f = (t, Throw e)"
  by (simp add: andThen_def)

lemma andThen_ret [simp]: "andThen (ret a) f = f a"
  by (simp add: ret_def)

lemma andThen_effects [simp]: "andThen (effects es) f = (es @ fst (f ()), snd (f ()))"
  by (simp add: effects_def)

lemma andThen_throws: "snd m = Throw e \<Longrightarrow> andThen m f = (fst m, Throw e)"
  by (cases m) (simp add: andThen_def)

section \<open>The execution mode (getEntryPointInfo)\<close>

text \<open>
  Claim C1.  For every code string (present or absent), interactive flag, list of rest
  arguments and terminal flag of the standard input, \<^verbatim>\<open>getEntryPointInfo\<close> returns
  \<^verbatim>\<open>executeEval\<close> = code present and not (interactive and rest non-empty);
  \<^verbatim>\<open>executeEntrypoint\<close> = not \<^verbatim>\<open>executeEval\<close> and rest non-empty;
  \<^verbatim>\<open>executeRepl\<close> = not \<^verbatim>\<open>executeEntrypoint\<close> and (interactive or (terminal and not
  \<^verbatim>\<open>executeEval\<close>)); \<^verbatim>\<open>executeStdin\<close> = none of the other three; and
  \<^verbatim>\<open>entryPointPath\<close> is the first rest argument resolved against the resolution directory
  when \<^verbatim>\<open>executeEntrypoint\<close> holds, and absent otherwise.  In particular code with
  interactive unset gives \<^verbatim>\<open>executeEval\<close> whatever the rest arguments are, and code with
  interactive set and rest arguments gives \<^verbatim>\<open>executeEntrypoint\<close> and not
  \<^verbatim>\<open>executeEval\<close>.  The flags are read by their truth value: \<^verbatim>\<open>executeRepl\<close> may be
  the value \<^verbatim>\<open>undefined\<close>, which is false.
\<close>

theorem getEntryPointInfo_modes:
  "(let r = getEntryPointInfo h resolutionCwd' code' interactive' rest in
      executeEval r = (code' \<noteq> None \<and> \<not> (truthy interactive' \<and> rest \<noteq> []))
    \<and> executeEntrypoint r = (\<not> executeEval r \<and> rest \<noteq> [])
    \<and> truthy (executeRepl r)
        = (\<not> executeEntrypoint r
           \<and> (truthy interactive' \<or> (truthy (stdinIsTTY h) \<and> \<not> executeEval r)))
    \<and> executeStdin r
        = (\<not> executeEval r \<and> \<not> truthy (executeRepl r) \<and> \<not> executeEntrypoint r)
    \<and> entryPointPath r
        = (if executeEntrypoint r then Some (resolve h [resolutionCwd', hd rest]) else None)
    \<and> (code' \<noteq> None \<and> \<not> truthy interactive' \<longrightarrow> executeEval r)
    \<and> (code' \<noteq> None \<and> truthy interactive' \<and> rest \<noteq> []
         \<longrightarrow> \<not> executeEval r \<and> executeEntrypoint r))"
  by (cases rest) (auto simp add: getEntryPointInfo_def Let_def js_and_def js_or_def truthy_def)

theorem getEntryPointInfo_modes_witness:
  "executeEval (getEntryPointInfo exampleHost ''/work'' (Some ''1+1'') (Some False) [''script.ts''])
   \<and> \<not> executeEval (getEntryPointInfo exampleHost ''/work'' (Some ''1+1'') (Some True) [''script.ts''])
   \<and> executeEntrypoint (getEntryPointInfo exampleHost ''/work'' (Some ''1+1'') (Some True) [''script.ts''])
   \<and> entryPointPath (getEntryPointInfo exampleHost ''/work'' (Some ''1+1'') (Some True) [''script.ts''])
       = Some ''/work/script.ts''"
  using getEntryPointInfo_modes [of exampleHost "''/work''" "Some ''1+1''" "Some False" "[''script.ts'']"]
        getEntryPointInfo_modes [of exampleHost "''/work''" "Some ''1+1''" "Some True" "[''script.ts'']"]
  by (simp add: Let_def truthy_def exampleHost_def exampleResolve_def)

text \<open>
  Claim C2.  Whenever \<^verbatim>\<open>executeEval\<close> is false in the result of \<^verbatim>\<open>getEntryPointInfo\<close>,
  exactly one of \<^verbatim>\<open>executeEntrypoint\<close>, \<^verbatim>\<open>executeRepl\<close> and \<^verbatim>\<open>executeStdin\<close> is true.
\<close>

theorem getEntryPointInfo_exactly_one:
  "\<not> executeEval (getEntryPointInfo h resolutionCwd' code' interactive' rest) \<Longrightarrow>
   (let r = getEntryPointInfo h resolutionCwd' code' interactive' rest in
      (executeEntrypoint r \<and> \<not> truthy (executeRepl r) \<and> \<not> executeStdin r)
    \<or> (\<not> executeEntrypoint r \<and> truthy (executeRepl r) \<and> \<not> executeStdin r)
    \<or> (\<not> executeEntrypoint r \<and> \<not> truthy (executeRepl r) \<and> executeStdin r))"
  by (auto simp add: getEntryPointInfo_def Let_def js_and_def js_or_def truthy_def)

theorem getEntryPointInfo_exactly_one_witness:
  "\<not> executeEval (getEntryPointInfo exampleHost ''/work'' None None [])
   \<and> \<not> executeEntrypoint (getEntryPointInfo exampleHost ''/work'' None None [])
   \<and> \<not> truthy (executeRepl (getEntryPointInfo exampleHost ''/work'' None None []))
   \<and> executeStdin (getEntryPointInfo exampleHost ''/work'' None None [])"
  using getEntryPointInfo_exactly_one [of exampleHost "''/work''" None None "[]"]
  by (simp add: getEntryPointInfo_def Let_def js_and_def js_or_def truthy_def exampleHost_def)

section \<open>The configuration phase (phase3)\<close>

lemma getProjectSearchDir_both:
  "truthy s \<Longrightarrow> truthy c \<Longrightarrow>
   getProjectSearchDir h d s c p
     = ([], Throw (TypeError ''--cwd-mode cannot be combined with --script-mode''))"
  by (simp add: getProjectSearchDir_def)

lemma getProjectSearchDir_no_script:
  "truthy s \<Longrightarrow> \<not> truthy c \<Longrightarrow> \<not> truthyStr p \<Longrightarrow>
   getProjectSearchDir h d s c p
     = ([], Throw (TypeError
         ''--script-mode must be used with a script name, e.g. `ts-node --script-mode <script.ts>`''))"
  by (simp add: getProjectSearchDir_def)

lemma getProjectSearchDir_no_config_lookup:
  "FindAndReadConfig i \<notin> set (fst (getProjectSearchDir h d s c p))"
  by (auto simp add: getProjectSearchDir_def ret_def Let_def split: option.splits)

lemma getProjectSearchDir_resolver_throws:
  "\<not> (truthy s \<and> truthy c) \<Longrightarrow> truthy s \<Longrightarrow> p \<noteq> [] \<Longrightarrow>
   requireResolveNonCached h
     (requireExtensions h @ filter (\<lambda>ext. ext \<notin> set (requireExtensions h)) exts) p = Inl e \<Longrightarrow>
   snd (getProjectSearchDir h d s c (Some p)) = Throw e"
  by (auto simp add: getProjectSearchDir_def Let_def truthyStr_def truthy_def)

lemma phase3_unfold:
  "initialArgv payload = Some a \<Longrightarrow> initialResolutionCwd payload = Some d \<Longrightarrow>
   phase3 h payload =
     andThen
       (getProjectSearchDir h d (scriptMode a) (cwdMode a)
          (entryPointPath (getEntryPointInfo h d (code a) (Some (interactive a)) (parsed_restArgs a))))
       (\<lambda>dir. andThen ([FindAndReadConfig (configInputOf a d dir)],
                        called (findAndReadConfig h (configInputOf a d dir)))
                (\<lambda>config. ret \<lparr> preloadedConfig = config,
                                 enableEsmLoader =
                                   (truthy (optEsm (options config)) \<or> truthy (esm a)) \<rparr>))"
  by (simp add: phase3_def Let_def)

lemma entryPointPath_no_rest:
  "entryPointPath (getEntryPointInfo h d c i []) = None"
  by (simp add: getEntryPointInfo_def Let_def)

text \<open>
  Claim C3.  \<^verbatim>\<open>phase3\<close> throws a \<^verbatim>\<open>TypeError\<close> when script mode and cwd mode are both
  set, and when script mode is set and \<^verbatim>\<open>getEntryPointInfo\<close> yields no entry-point path, in
  particular whenever script mode is set and there are no rest arguments.  In each case the
  trace of \<^verbatim>\<open>phase3\<close> is empty: the error is raised before \<^verbatim>\<open>findAndReadConfig\<close> is
  called.  When there is an entry-point path and the host's resolver cannot resolve it,
  \<^verbatim>\<open>phase3\<close> throws what the resolver throws, also before any call of
  \<^verbatim>\<open>findAndReadConfig\<close>.
\<close>

theorem phase3_usage_errors:
  assumes argv: "initialArgv payload = Some a"
      and dir: "initialResolutionCwd payload = Some d"
      and script: "truthy (scriptMode a)"
  shows
    "(truthy (cwdMode a) \<longrightarrow>
        phase3 h payload
          = ([], Throw (TypeError ''--cwd-mode cannot be combined with --script-mode'')))
   \<and> (\<not> truthy (cwdMode a)
       \<and> \<not> truthyStr (entryPointPath
                        (getEntryPointInfo h d (code a) (Some (interactive a)) (parsed_restArgs a)))
       \<longrightarrow> phase3 h payload
             = ([], Throw (TypeError
                 ''--script-mode must be used with a script name, e.g. `ts-node --script-mode <script.ts>`'')))
   \<and> (parsed_restArgs a = [] \<longrightarrow> (\<exists>m. phase3 h payload = ([], Throw (TypeError m))))
   \<and> (\<forall>p e. \<not> truthy (cwdMode a)
         \<and> entryPointPath
              (getEntryPointInfo h d (code a) (Some (interactive a)) (parsed_restArgs a)) = Some p
         \<and> p \<noteq> []
         \<and> requireResolveNonCached h
              (requireExtensions h @ filter (\<lambda>ext. ext \<notin> set (requireExtensions h)) exts) p = Inl e
       \<longrightarrow> snd (phase3 h payload) = Throw e
           \<and> (\<forall>i. FindAndReadConfig i \<notin> set (fst (phase3 h payload))))"
proof (intro conjI impI allI)
  assume "truthy (cwdMode a)"
  with script show
    "phase3 h payload = ([], Throw (TypeError ''--cwd-mode cannot be combined with --script-mode''))"
    by (simp add: phase3_unfold [OF argv dir] getProjectSearchDir_both)
next
  assume "\<not> truthy (cwdMode a)
       \<and> \<not> truthyStr (entryPointPath
                        (getEntryPointInfo h d (code a) (Some (interactive a)) (parsed_restArgs a)))"
  with script show
    "phase3 h payload
       = ([], Throw (TypeError
           ''--script-mode must be used with a script name, e.g. `ts-node --script-mode <script.ts>`''))"
    by (simp add: phase3_unfold [OF argv dir] getProjectSearchDir_no_script)
next
  assume rest: "parsed_restArgs a = []"
  show "\<exists>m. phase3 h payload = ([], Throw (TypeError m))"
  proof (cases "truthy (cwdMode a)")
    case True
    with script show ?thesis
      by (simp add: phase3_unfold [OF argv dir] getProjectSearchDir_both)
  next
    case False
    with script rest show ?thesis
      by (simp add: phase3_unfold [OF argv dir] entryPointPath_no_rest
            getProjectSearchDir_no_script truthyStr_def)
  qed
next
  fix p e
  assume h: "\<not> truthy (cwdMode a)
         \<and> entryPointPath
              (getEntryPointInfo h d (code a) (Some (interactive a)) (parsed_restArgs a)) = Some p
         \<and> p \<noteq> []
         \<and> requireResolveNonCached h
              (requireExtensions h @ filter (\<lambda>ext. ext \<notin> set (requireExtensions h)) exts) p = Inl e"
  let ?g = "getProjectSearchDir h d (scriptMode a) (cwdMode a) (Some p)"
  from h script have thr: "snd ?g = Throw e"
    by (intro getProjectSearchDir_resolver_throws) simp_all
  from h have eq: "phase3 h payload = (fst ?g, Throw e)"
    by (simp add: phase3_unfold [OF argv dir] andThen_throws [OF thr])
  show "snd (phase3 h payload) = Throw e"
    by (simp add: eq)
  fix i
  show "FindAndReadConfig i \<notin> set (fst (phase3 h payload))"
    by (simp add: eq getProjectSearchDir_no_config_lookup)
qed

theorem phase3_usage_errors_witness:
  "phase3 exampleHost
     (exampleState ((exampleArgv [''script.ts'']) \<lparr> scriptMode := Some True, cwdMode := Some True \<rparr>))
     = ([], Throw (TypeError ''--cwd-mode cannot be combined with --script-mode''))
   \<and> phase3 exampleHost (exampleState ((exampleArgv []) \<lparr> scriptMode := Some True \<rparr>))
     = ([], Throw (TypeError
         ''--script-mode must be used with a script name, e.g. `ts-node --script-mode <script.ts>`''))
   \<and> snd (phase3 brokenResolverHost
            (exampleState ((exampleArgv [''script.ts'']) \<lparr> scriptMode := Some True \<rparr>)))
     = Throw (OtherError ''MODULE_NOT_FOUND'')"
  using
    phase3_usage_errors
      [of "exampleState ((exampleArgv [''script.ts'']) \<lparr> scriptMode := Some True, cwdMode := Some True \<rparr>)"
          "(exampleArgv [''script.ts'']) \<lparr> scriptMode := Some True, cwdMode := Some True \<rparr>"
          "''/work''" exampleHost]
    phase3_usage_errors
      [of "exampleState ((exampleArgv []) \<lparr> scriptMode := Some True \<rparr>)"
          "(exampleArgv []) \<lparr> scriptMode := Some True \<rparr>"
          "''/work''" exampleHost]
    phase3_usage_errors
      [of "exampleState ((exampleArgv [''script.ts'']) \<lparr> scriptMode := Some True \<rparr>)"
          "(exampleArgv [''script.ts'']) \<lparr> scriptMode := Some True \<rparr>"
          "''/work''" brokenResolverHost]
  by (simp add: exampleState_def exampleArgv_def truthy_def truthyStr_def
        getEntryPointInfo_def Let_def js_and_def js_or_def
        brokenResolverHost_def exampleHost_def exampleResolve_def)

text \<open>
  Claim C6.  Whenever \<^verbatim>\<open>phase3\<close> returns, \<^verbatim>\<open>enableEsmLoader\<close> is true if and only if the
  \<^verbatim>\<open>--esm\<close> flag is set or the \<^verbatim>\<open>esm\<close> option of the configuration that
  \<^verbatim>\<open>findAndReadConfig\<close> returned is set; and \<^verbatim>\<open>phase3\<close> does return, with that
  configuration, whenever \<^verbatim>\<open>getProjectSearchDir\<close> and \<^verbatim>\<open>findAndReadConfig\<close> return.
\<close>

theorem phase3_enableEsmLoader:
  assumes argv: "initialArgv payload = Some a"
      and dir: "initialResolutionCwd payload = Some d"
  shows
    "(\<forall>t r. phase3 h payload = (t, Return r) \<longrightarrow>
        enableEsmLoader r = (truthy (esm a) \<or> truthy (optEsm (options (preloadedConfig r))))
        \<and> (\<exists>i. FindAndReadConfig i \<in> set t \<and> findAndReadConfig h i = Inr (preloadedConfig r)))
   \<and> (\<forall>t searchDir config.
        getProjectSearchDir h d (scriptMode a) (cwdMode a)
          (entryPointPath
             (getEntryPointInfo h d (code a) (Some (interactive a)) (parsed_restArgs a)))
          = (t, Return searchDir)
        \<and> findAndReadConfig h (configInputOf a d searchDir) = Inr config
        \<longrightarrow> phase3 h payload
              = (t @ [FindAndReadConfig (configInputOf a d searchDir)],
                 Return \<lparr> preloadedConfig = config,
                          enableEsmLoader =
                            (truthy (optEsm (options config)) \<or> truthy (esm a)) \<rparr>))"
proof (intro conjI allI impI)
  fix t r
  assume run: "phase3 h payload = (t, Return r)"
  let ?g = "getProjectSearchDir h d (scriptMode a) (cwdMode a)
          (entryPointPath
             (getEntryPointInfo h d (code a) (Some (interactive a)) (parsed_restArgs a)))"
  obtain t1 o1 where g: "?g = (t1, o1)" by (cases ?g)
  from run g obtain searchDir where o1: "o1 = Return searchDir"
    by (cases o1) (simp_all add: phase3_unfold [OF argv dir])
  let ?i = "configInputOf a d searchDir"
  from run g o1 obtain config where c: "findAndReadConfig h ?i = Inr config"
    by (cases "findAndReadConfig h ?i") (simp_all add: phase3_unfold [OF argv dir] called_def ret_def)
  from run g o1 c have r: "r = \<lparr> preloadedConfig = config,
        enableEsmLoader = (truthy (optEsm (options config)) \<or> truthy (esm a)) \<rparr>"
    and t: "t = t1 @ [FindAndReadConfig ?i]"
    by (simp_all add: phase3_unfold [OF argv dir] called_def ret_def)
  show "enableEsmLoader r = (truthy (esm a) \<or> truthy (optEsm (options (preloadedConfig r))))"
    by (auto simp add: r)
  show "\<exists>i. FindAndReadConfig i \<in> set t \<and> findAndReadConfig h i = Inr (preloadedConfig r)"
    by (rule exI [of _ ?i]) (simp add: t r c)
next
  fix t searchDir config
  assume "getProjectSearchDir h d (scriptMode a) (cwdMode a)
          (entryPointPath
             (getEntryPointInfo h d (code a) (Some (interactive a)) (parsed_restArgs a)))
          = (t, Return searchDir)
        \<and> findAndReadConfig h (configInputOf a d searchDir) = Inr config"
  then show "phase3 h payload
              = (t @ [FindAndReadConfig (configInputOf a d searchDir)],
                 Return \<lparr> preloadedConfig = config,
                          enableEsmLoader =
                            (truthy (optEsm (options config)) \<or> truthy (esm a)) \<rparr>)"
    by (simp add: phase3_unfold [OF argv dir] called_def ret_def)
qed

theorem phase3_enableEsmLoader_witness:
  "phase3 esmConfigHost (exampleState (exampleArgv []))
     = ([FindAndReadConfig (configInputOf (exampleArgv []) ''/work'' ''/work'')],
        Return \<lparr> preloadedConfig = exampleConfig (Some True), enableEsmLoader = True \<rparr>)
   \<and> esm (exampleArgv []) = None"
proof -
  have argv: "initialArgv (exampleState (exampleArgv [])) = Some (exampleArgv [])"
    and dir: "initialResolutionCwd (exampleState (exampleArgv [])) = Some ''/work''"
    by (simp_all add: exampleState_def)
  have search:
    "getProjectSearchDir esmConfigHost ''/work'' (scriptMode (exampleArgv []))
       (cwdMode (exampleArgv []))
       (entryPointPath
          (getEntryPointInfo esmConfigHost ''/work'' (code (exampleArgv []))
             (Some (interactive (exampleArgv []))) (parsed_restArgs (exampleArgv []))))
       = ([], Return ''/work'')"
    by (simp add: getProjectSearchDir_def entryPointPath_no_rest exampleArgv_def truthy_def
          truthyStr_def ret_def)
  have config:
    "findAndReadConfig esmConfigHost (configInputOf (exampleArgv []) ''/work'' ''/work'')
       = Inr (exampleConfig (Some True))"
    by (simp add: esmConfigHost_def)
  from phase3_enableEsmLoader [OF argv dir, of esmConfigHost, THEN conjunct2, rule_format,
         OF conjI, OF search config]
  show ?thesis
    by (simp add: exampleConfig_def exampleArgv_def truthy_def)
qed

section \<open>Evaluation of inline code and of standard input (evalAndExitOnTsError)\<close>

text \<open>
  Claim C8.  In an eval or stdin evaluation, a \<^verbatim>\<open>TSError\<close> thrown by the REPL service is
  caught and printed with \<^verbatim>\<open>console.error\<close>, and the process exits with status 1 without
  printing a result; any other thrown value propagates; on success with the print flag set
  the result is printed as it is when it is a string, and as \<^verbatim>\<open>inspect\<close> formats it
  otherwise; without the print flag nothing is printed.
\<close>

theorem evalAndExitOnTsError_outcomes:
  "(\<forall>m. evalCode h file text = Inl (TSError m) \<longrightarrow>
      evalAndExitOnTsError h file text isPrinted
        = ([SetupContext file, EvalCode file text, ConsoleErrorThrown (TSError m)], Exit 1))
   \<and> (\<forall>e. evalCode h file text = Inl e \<and> \<not> isTSError e \<longrightarrow>
      evalAndExitOnTsError h file text isPrinted
        = ([SetupContext file, EvalCode file text], Throw e))
   \<and> (\<forall>s. evalCode h file text = Inr (JSString s) \<longrightarrow>
      evalAndExitOnTsError h file text True
        = ([SetupContext file, EvalCode file text, ConsoleLog s], Return ()))
   \<and> (\<forall>v. evalCode h file text = Inr v \<and> (\<forall>s. v \<noteq> JSString s) \<longrightarrow>
      evalAndExitOnTsError h file text True
        = ([SetupContext file, EvalCode file text, ConsoleLog (inspect h v)], Return ()))
   \<and> (\<forall>v. evalCode h file text = Inr v \<longrightarrow>
      evalAndExitOnTsError h file text False
        = ([SetupContext file, EvalCode file text], Return ()))"
proof (intro conjI allI impI)
  fix m assume "evalCode h file text = Inl (TSError m)"
  then show "evalAndExitOnTsError h file text isPrinted
        = ([SetupContext file, EvalCode file text, ConsoleErrorThrown (TSError m)], Exit 1)"
    by (simp add: evalAndExitOnTsError_def)
next
  fix e assume "evalCode h file text = Inl e \<and> \<not> isTSError e"
  then show "evalAndExitOnTsError h file text isPrinted
        = ([SetupContext file, EvalCode file text], Throw e)"
    by (simp add: evalAndExitOnTsError_def)
next
  fix s assume "evalCode h file text = Inr (JSString s)"
  then show "evalAndExitOnTsError h file text True
        = ([SetupContext file, EvalCode file text, ConsoleLog s], Return ())"
    by (simp add: evalAndExitOnTsError_def effects_def)
next
  fix v assume "evalCode h file text = Inr v \<and> (\<forall>s. v \<noteq> JSString s)"
  then show "evalAndExitOnTsError h file text True
        = ([SetupContext file, EvalCode file text, ConsoleLog (inspect h v)], Return ())"
    by (cases v) (simp_all add: evalAndExitOnTsError_def effects_def)
next
  fix v assume "evalCode h file text = Inr v"
  then show "evalAndExitOnTsError h file text False
        = ([SetupContext file, EvalCode file text], Return ())"
    by (simp add: evalAndExitOnTsError_def ret_def)
qed

theorem evalAndExitOnTsError_outcomes_witness:
  "evalAndExitOnTsError exampleHost EvalFile ''type error'' True
     = ([SetupContext EvalFile, EvalCode EvalFile ''type error'',
         ConsoleErrorThrown (TSError ''TS2322'')], Exit 1)
   \<and> evalAndExitOnTsError exampleHost EvalFile ''throw'' True
     = ([SetupContext EvalFile, EvalCode EvalFile ''throw''], Throw (OtherError ''x''))
   \<and> evalAndExitOnTsError exampleHost EvalFile ''hello'' True
     = ([SetupContext EvalFile, EvalCode EvalFile ''hello'', ConsoleLog ''hello''], Return ())
   \<and> evalAndExitOnTsError exampleHost EvalFile ''1+1'' True
     = ([SetupContext EvalFile, EvalCode EvalFile ''1+1'', ConsoleLog ''2''], Return ())
   \<and> evalAndExitOnTsError exampleHost StdinFile ''1+1'' False
     = ([SetupContext StdinFile, EvalCode StdinFile ''1+1''], Return ())"
proof -
  have e1: "evalCode exampleHost EvalFile ''type error'' = Inl (TSError ''TS2322'')"
    and e2: "evalCode exampleHost EvalFile ''throw'' = Inl (OtherError ''x'')
             \<and> \<not> isTSError (OtherError ''x'')"
    and e3: "evalCode exampleHost EvalFile ''hello'' = Inr (JSString ''hello'')"
    and e4: "evalCode exampleHost EvalFile ''1+1'' = Inr (JSNumber 2)
             \<and> (\<forall>s. JSNumber 2 \<noteq> JSString s)"
    and e5: "evalCode exampleHost StdinFile ''1+1'' = Inr (JSNumber 2)"
    and i: "inspect exampleHost (JSNumber 2) = ''2''"
    by (simp_all add: exampleHost_def exampleEvalCode_def)
  note outcomes = evalAndExitOnTsError_outcomes [of exampleHost]
  from outcomes [of EvalFile "''type error''" True, THEN conjunct1, rule_format, OF e1]
       outcomes [of EvalFile "''throw''" True, THEN conjunct2, THEN conjunct1, rule_format, OF e2]
       outcomes [of EvalFile "''hello''" True, THEN conjunct2, THEN conjunct2, THEN conjunct1,
            rule_format, OF e3]
       outcomes [of EvalFile "''1+1''" True, THEN conjunct2, THEN conjunct2, THEN conjunct2,
            THEN conjunct1, rule_format, OF e4]
       outcomes [of StdinFile "''1+1''" True, THEN conjunct2, THEN conjunct2, THEN conjunct2,
            THEN conjunct2, rule_format, OF e5]
  show ?thesis
    by (simp add: i)
qed

section \<open>The state for forked processes (createBootstrapStateForChildProcess)\<close>

text \<open>
  Claim C5.  The record \<^verbatim>\<open>createBootstrapStateForChildProcess\<close> builds has exactly the
  fields \<^verbatim>\<open>restArgs\<close>, \<^verbatim>\<open>phase3Result.enableEsmLoader\<close> and
  \<^verbatim>\<open>phase3Result.preloadedConfig\<close> (the record type \<open>BootstrapStateForForkedProcesses\<close> has
  no other field), each copied from the state; and nothing of the parsed options enters it:
  replacing \<^verbatim>\<open>initialArgv\<close> (the code string, the interactive and print flags and every
  other parsed flag) and \<^verbatim>\<open>initialResolutionCwd\<close> of the state by anything leaves the
  result unchanged.
\<close>

theorem createBootstrapStateForChildProcess_fields:
  "(\<forall>r. phase3Result state = Some r \<longrightarrow>
      createBootstrapStateForChildProcess state
        = Inr \<lparr> fork_restArgs = restArgs state,
                fork_phase3Result =
                  \<lparr> preloadedConfig = preloadedConfig r,
                    enableEsmLoader = enableEsmLoader r \<rparr> \<rparr>)
   \<and> createBootstrapStateForChildProcess
         (state \<lparr> initialArgv := argv', initialResolutionCwd := cwd'' \<rparr>)
       = createBootstrapStateForChildProcess state"
  by (simp add: createBootstrapStateForChildProcess_def split: option.splits)

theorem createBootstrapStateForChildProcess_fields_witness:
  "createBootstrapStateForChildProcess
     ((exampleState ((exampleArgv [''script.ts''])
                       \<lparr> code := Some ''1+1'', print := True, interactive := True \<rparr>))
        \<lparr> phase3Result := Some examplePhase3Result \<rparr>)
     = Inr \<lparr> fork_restArgs = [''script.ts''],
             fork_phase3Result =
               \<lparr> preloadedConfig = exampleConfig None, enableEsmLoader = False \<rparr> \<rparr>"
  using createBootstrapStateForChildProcess_fields
    [of "(exampleState ((exampleArgv [''script.ts''])
                       \<lparr> code := Some ''1+1'', print := True, interactive := True \<rparr>))
        \<lparr> phase3Result := Some examplePhase3Result \<rparr>"]
  by (simp add: exampleState_def examplePhase3Result_def exampleArgv_def)

section \<open>The execution phase (phase4)\<close>

lemma stdinHandlers_chunks:
  "stdinHandlers h isPrinted buffer (map Data chunks @ End # later)
     = evalAndExitOnTsError h StdinFile (buffer @ concat chunks) isPrinted"
  by (induction chunks arbitrary: buffer) simp_all

lemma executeStdin_only:
  "executeStdin (getEntryPointInfo h d c i rest) \<Longrightarrow>
   c = None
   \<and> \<not> executeEval (getEntryPointInfo h d c i rest)
   \<and> \<not> executeEntrypoint (getEntryPointInfo h d c i rest)
   \<and> \<not> truthy (executeRepl (getEntryPointInfo h d c i rest))"
  by (auto simp add: getEntryPointInfo_def Let_def)

lemma phase4_unfold:
  "phase3Result payload = Some p3 \<Longrightarrow>
   phase4 h payload =
     andThen (phase4Service h payload p3 (phase4EntryPointInfo h payload))
       (\<lambda>service'.
          andThen (phase4Version h payload service')
            (\<lambda>_. andThen (phase4ShowConfig h payload service')
                    (\<lambda>_. andThen (phase4Argv h payload p3 (phase4EntryPointInfo h payload))
                            (\<lambda>_. phase4Execute h payload p3 (phase4EntryPointInfo h payload)))))"
  by (simp add: phase4_def Let_def)

lemma phase4Execute_stdin:
  assumes "executeStdin (phase4EntryPointInfo h payload)"
  shows "phase4Execute h payload p3 (phase4EntryPointInfo h payload)
           = stdinHandlers h (case initialArgv payload of None \<Rightarrow> False | Some a \<Rightarrow> print a)
               [] (stdin h)"
proof -
  from assms have facts:
    "(case initialArgv payload of None \<Rightarrow> None | Some a \<Rightarrow> code a) = None"
    "\<not> executeEval (phase4EntryPointInfo h payload)"
    "\<not> executeEntrypoint (phase4EntryPointInfo h payload)"
    "\<not> truthy (executeRepl (phase4EntryPointInfo h payload))"
    unfolding phase4EntryPointInfo_def by (auto dest: executeStdin_only)
  from assms facts show ?thesis
    by (simp add: phase4Execute_def stdinSeed_def nullish_def)
qed

text \<open>
  Claim C10.  In the result of \<^verbatim>\<open>getEntryPointInfo\<close>, \<^verbatim>\<open>executeStdin\<close> implies that the code
  string is absent; so the buffer of the stdin mode in \<^verbatim>\<open>phase4\<close>, which starts as the
  code field, starts empty, and when the stream emits the chunks and then ends, \<^verbatim>\<open>phase4\<close>
  evaluates exactly the concatenation of the chunks: its last step is
  \<^verbatim>\<open>evalAndExitOnTsError\<close> of that text in the virtual file \<^verbatim>\<open>[stdin]\<close>.
\<close>

theorem stdin_text_is_chunks:
  "(executeStdin (getEntryPointInfo h d c i rest) \<longrightarrow> c = None)
   \<and> (executeStdin (phase4EntryPointInfo h payload) \<longrightarrow> stdinSeed payload = [])
   \<and> (\<forall>p3 chunks later.
         phase3Result payload = Some p3
         \<and> executeStdin (phase4EntryPointInfo h payload)
         \<and> stdin h = map Data chunks @ End # later
         \<longrightarrow> phase4 h payload =
               andThen (phase4Service h payload p3 (phase4EntryPointInfo h payload))
                 (\<lambda>service'.
                    andThen (phase4Version h payload service')
                      (\<lambda>_. andThen (phase4ShowConfig h payload service')
                              (\<lambda>_. andThen
                                      (phase4Argv h payload p3 (phase4EntryPointInfo h payload))
                                      (\<lambda>_. evalAndExitOnTsError h StdinFile (concat chunks)
                                              (case initialArgv payload of
                                                 None \<Rightarrow> False
                                               | Some a \<Rightarrow> print a))))))"
proof (intro conjI allI impI)
  assume "executeStdin (getEntryPointInfo h d c i rest)"
  then show "c = None"
    by (simp add: executeStdin_only)
next
  assume "executeStdin (phase4EntryPointInfo h payload)"
  then have "(case initialArgv payload of None \<Rightarrow> None | Some a \<Rightarrow> code a) = None"
    unfolding phase4EntryPointInfo_def by (auto dest: executeStdin_only)
  then show "stdinSeed payload = []"
    by (simp add: stdinSeed_def nullish_def)
next
  fix p3 chunks later
  assume a: "phase3Result payload = Some p3
         \<and> executeStdin (phase4EntryPointInfo h payload)
         \<and> stdin h = map Data chunks @ End # later"
  then have "phase4Execute h payload p3 (phase4EntryPointInfo h payload)
      = evalAndExitOnTsError h StdinFile (concat chunks)
          (case initialArgv payload of None \<Rightarrow> False | Some a \<Rightarrow> print a)"
    by (simp add: phase4Execute_stdin stdinHandlers_chunks)
  with a show "phase4 h payload =
               andThen (phase4Service h payload p3 (phase4EntryPointInfo h payload))
                 (\<lambda>service'.
                    andThen (phase4Version h payload service')
                      (\<lambda>_. andThen (phase4ShowConfig h payload service')
                              (\<lambda>_. andThen
                                      (phase4Argv h payload p3 (phase4EntryPointInfo h payload))
                                      (\<lambda>_. evalAndExitOnTsError h StdinFile (concat chunks)
                                              (case initialArgv payload of
                                                 None \<Rightarrow> False
                                               | Some a \<Rightarrow> print a)))))"
    by (simp add: phase4_unfold)
qed

lemma stdinState_info:
  "phase4EntryPointInfo exampleHost stdinState
     = \<lparr> executeEval = False, executeEntrypoint = False, executeRepl = None,
         executeStdin = True, entryPointPath = None \<rparr>"
  by (simp add: phase4EntryPointInfo_def getEntryPointInfo_def Let_def stdinState_def
        exampleState_def exampleArgv_def exampleHost_def js_and_def js_or_def truthy_def)

lemma stdinState_fields:
  "phase3Result stdinState = Some examplePhase3Result"
  "initialArgv stdinState = Some ((exampleArgv []) \<lparr> print := True \<rparr>)"
  "restArgs stdinState = []"
  "phase4ResolutionCwd exampleHost stdinState = ''/work''"
  by (simp_all add: stdinState_def exampleState_def exampleArgv_def phase4ResolutionCwd_def
        nullish_def)

lemma stdinState_service:
  "phase4Service exampleHost stdinState examplePhase3Result
     \<lparr> executeEval = False, executeEntrypoint = False, executeRepl = None,
       executeStdin = True, entryPointPath = None \<rparr>
   = ([CreateRepl StdinFile ''/work/[stdin].ts'',
       CreateFromPreloadedConfig
         ((exampleConfig None)
            \<lparr> options := (options (exampleConfig None))
                 \<lparr> optReadFile := Some [StdinFile], optFileExists := Some [StdinFile] \<rparr> \<rparr>),
       Register, SetService StdinFile], Return exampleService)"
  by (simp add: phase4Service_def stdinState_fields virtualFiles_def evalAwarePartialHost_def
        truthy_def examplePhase3Result_def exampleConfig_def called_def ret_def effects_def)
     (simp add: exampleHost_def exampleResolve_def)

theorem stdin_text_is_chunks_witness:
  "executeStdin (phase4EntryPointInfo exampleHost stdinState)
   \<and> stdin exampleHost = [Data ''1'', Data ''+1'', End]
   \<and> phase4 exampleHost stdinState
     = ([CreateRepl StdinFile ''/work/[stdin].ts'',
         CreateFromPreloadedConfig
           ((exampleConfig None)
              \<lparr> options := (options (exampleConfig None))
                   \<lparr> optReadFile := Some [StdinFile], optFileExists := Some [StdinFile] \<rparr> \<rparr>),
         Register, SetService StdinFile,
         PushExecArgv [''child.js'', ''state''],
         SetProcessArgv [''/bin/ts-node''],
         SetupContext StdinFile,
         EvalCode StdinFile ''1+1'',
         ConsoleLog ''2''], Return ())"
proof -
  have mode: "executeStdin (phase4EntryPointInfo exampleHost stdinState)"
    by (simp add: stdinState_info)
  have input: "stdin exampleHost = map Data [''1'', ''+1''] @ End # []"
    by (simp add: exampleHost_def)
  have argv: "phase4Argv exampleHost stdinState examplePhase3Result
       \<lparr> executeEval = False, executeEntrypoint = False, executeRepl = None,
         executeStdin = True, entryPointPath = None \<rparr>
     = ([PushExecArgv [''child.js'', ''state''], SetProcessArgv [''/bin/ts-node'']], Return ())"
    by (simp add: phase4Argv_def createBootstrapStateForChildProcess_def stdinState_fields
          called_def effects_def exampleHost_def)
  have eval: "evalAndExitOnTsError exampleHost StdinFile ''1+1'' True
     = ([SetupContext StdinFile, EvalCode StdinFile ''1+1'', ConsoleLog ''2''], Return ())"
    by (simp add: evalAndExitOnTsError_def exampleHost_def exampleEvalCode_def effects_def)
  have version: "phase4Version exampleHost stdinState exampleService = ([], Return ())"
    by (simp add: phase4Version_def stdinState_fields exampleArgv_def ret_def)
  have config: "phase4ShowConfig exampleHost stdinState exampleService = ([], Return ())"
    by (simp add: phase4ShowConfig_def stdinState_fields exampleArgv_def ret_def truthy_def)
  from stdin_text_is_chunks [of exampleHost _ _ _ _ stdinState, THEN conjunct2, THEN conjunct2,
         rule_format, of examplePhase3Result "[''1'', ''+1'']" "[]"]
       mode input
  have "phase4 exampleHost stdinState =
               andThen (phase4Service exampleHost stdinState examplePhase3Result (phase4EntryPointInfo exampleHost stdinState))
                 (\<lambda>service'.
                    andThen (phase4Version exampleHost stdinState service')
                      (\<lambda>_. andThen (phase4ShowConfig exampleHost stdinState service')
                              (\<lambda>_. andThen
                                      (phase4Argv exampleHost stdinState examplePhase3Result (phase4EntryPointInfo exampleHost stdinState))
                                      (\<lambda>_. evalAndExitOnTsError exampleHost StdinFile (concat [''1'', ''+1''])
                                              (case initialArgv stdinState of
                                                 None \<Rightarrow> False
                                               | Some a \<Rightarrow> print a)))))"
    by (simp add: stdinState_fields)
  then have "phase4 exampleHost stdinState
     = ([CreateRepl StdinFile ''/work/[stdin].ts'',
         CreateFromPreloadedConfig
           ((exampleConfig None)
              \<lparr> options := (options (exampleConfig None))
                   \<lparr> optReadFile := Some [StdinFile], optFileExists := Some [StdinFile] \<rparr> \<rparr>),
         Register, SetService StdinFile,
         PushExecArgv [''child.js'', ''state''],
         SetProcessArgv [''/bin/ts-node''],
         SetupContext StdinFile,
         EvalCode StdinFile ''1+1'',
         ConsoleLog ''2''], Return ())"
    by (simp add: stdinState_info stdinState_service version config argv eval stdinState_fields)
  with mode show ?thesis
    by (simp add: exampleHost_def)
qed

section \<open>Help and version output (phase2 and phase4)\<close>

lemma phase4Service_constructs:
  assumes "phase4Service h payload p3 info = (t, Return svc)"
  shows "\<exists>config. CreateFromPreloadedConfig config \<in> set t
           \<and> createFromPreloadedConfig h config = Inr svc"
proof -
  let ?config = "(preloadedConfig p3)
                     \<lparr> options := (options (preloadedConfig p3))
                          \<lparr> optReadFile := evalAwarePartialHost info,
                            optFileExists := evalAwarePartialHost info,
                            optTsTrace := defaultTsTrace h \<rparr> \<rparr>"
  from assms show ?thesis
    by (cases "createFromPreloadedConfig h ?config")
       (auto simp add: phase4Service_def Let_def called_def ret_def effects_def)
qed

lemma phase4_version_exit:
  assumes "phase3Result payload = Some p3"
      and "phase4Service h payload p3 (phase4EntryPointInfo h payload) = (t, Return svc)"
      and "phase4Version h payload svc = (logs, Exit n)"
  shows "phase4 h payload = (t @ logs, Exit n)"
  using assms by (simp add: phase4_unfold)

lemma versionState_fields:
  "phase3Result (versionState n) = Some examplePhase3Result"
  "initialArgv (versionState n) = Some ((exampleArgv []) \<lparr> version := n \<rparr>)"
  "restArgs (versionState n) = []"
  "phase4ResolutionCwd exampleHost (versionState n) = ''/work''"
  by (simp_all add: versionState_def exampleState_def exampleArgv_def phase4ResolutionCwd_def
        nullish_def)

lemma versionState_info:
  "phase4EntryPointInfo exampleHost (versionState n)
     = \<lparr> executeEval = False, executeEntrypoint = False, executeRepl = None,
         executeStdin = True, entryPointPath = None \<rparr>"
  by (simp add: phase4EntryPointInfo_def getEntryPointInfo_def Let_def versionState_fields
        exampleArgv_def exampleHost_def js_and_def js_or_def truthy_def)

lemma versionState_service:
  "phase4Service exampleHost (versionState n) examplePhase3Result
     (phase4EntryPointInfo exampleHost (versionState n))
   = ([CreateRepl StdinFile ''/work/[stdin].ts'',
       CreateFromPreloadedConfig
         ((exampleConfig None)
            \<lparr> options := (options (exampleConfig None))
                 \<lparr> optReadFile := Some [StdinFile], optFileExists := Some [StdinFile] \<rparr> \<rparr>),
       Register, SetService StdinFile], Return exampleService)"
  by (simp add: versionState_info phase4Service_def versionState_fields virtualFiles_def
        evalAwarePartialHost_def truthy_def examplePhase3Result_def exampleConfig_def
        called_def ret_def effects_def)
     (simp add: exampleHost_def exampleResolve_def)

text \<open>
  Claim C9, as it is stated, fails when the help flag and a version count come together:
  the help flag is tested first, so with the help flag and a version count of 2
  \<^verbatim>\<open>phase2\<close> does end the process, and with the help flag and a version count of 1 it
  prints the usage text and not the version string.
\<close>

theorem help_precedes_version:
  "snd (phase2 exampleHost
          \<lparr> parseArgvResult = (exampleArgv []) \<lparr> help' := True, version := 2 \<rparr>,
            phase2Result = None \<rparr>) = Exit 0
   \<and> phase2 exampleHost
        \<lparr> parseArgvResult = (exampleArgv []) \<lparr> help' := True, version := 1 \<rparr>,
          phase2Result = None \<rparr> = ([ConsoleLog usage], Exit 0)
   \<and> usage \<noteq> ''v'' @ VERSION exampleHost"
  by (simp add: phase2_def exampleArgv_def usage_def)

text \<open>
  Claim C9, amended.  When the help flag is set, \<^verbatim>\<open>phase2\<close> prints the usage text and exits
  with status 0.  When it is not set: with a version count of exactly 1 \<^verbatim>\<open>phase2\<close> prints
  the short version string and exits with status 0; with a version count of 2 or more
  \<^verbatim>\<open>phase2\<close> prints nothing and returns the resolution directory, and \<^verbatim>\<open>phase4\<close>, once
  the compiler service has been constructed, prints the version information (three lines,
  with the paths for a count of 3 or more) and exits with status 0.
\<close>

theorem version_and_help_output:
  "(help' (parseArgvResult s) \<longrightarrow> phase2 h s = ([ConsoleLog usage], Exit 0))
   \<and> (\<not> help' (parseArgvResult s) \<and> version (parseArgvResult s) = 1 \<longrightarrow>
        phase2 h s = ([ConsoleLog (''v'' @ VERSION h)], Exit 0))
   \<and> (\<not> help' (parseArgvResult s) \<and> version (parseArgvResult s) \<ge> 2 \<longrightarrow>
        phase2 h s
          = ([], Return \<lparr> resolutionCwd =
                            (case cwdArg (parseArgvResult s) of
                               Some c \<Rightarrow> resolve h [c]
                             | None \<Rightarrow> cwd h) \<rparr>))
   \<and> (\<forall>payload p3 a t svc.
         phase3Result payload = Some p3
         \<and> initialArgv payload = Some a
         \<and> phase4Service h payload p3 (phase4EntryPointInfo h payload) = (t, Return svc)
         \<longrightarrow> (\<exists>config. CreateFromPreloadedConfig config \<in> set t
                 \<and> createFromPreloadedConfig h config = Inr svc)
             \<and> (version a = 2 \<longrightarrow>
                  phase4 h payload
                    = (t @ [ConsoleLog (''ts-node v'' @ VERSION h),
                            ConsoleLog (''node '' @ processVersion h),
                            ConsoleLog (''compiler v'' @ ts_version svc)], Exit 0))
             \<and> (version a \<ge> 3 \<longrightarrow>
                  phase4 h payload
                    = (t @ [ConsoleLog (''ts-node v'' @ VERSION h @ '' ''
                                        @ dirname h (moduleDirname h)),
                            ConsoleLog (''node '' @ processVersion h),
                            ConsoleLog (''compiler v'' @ ts_version svc @ '' ''
                                        @ nullish (compilerPath svc) [])], Exit 0)))"
proof (intro conjI allI impI)
  assume "help' (parseArgvResult s)"
  then show "phase2 h s = ([ConsoleLog usage], Exit 0)"
    by (simp add: phase2_def)
next
  assume "\<not> help' (parseArgvResult s) \<and> version (parseArgvResult s) = 1"
  then show "phase2 h s = ([ConsoleLog (''v'' @ VERSION h)], Exit 0)"
    by (simp add: phase2_def)
next
  assume "\<not> help' (parseArgvResult s) \<and> version (parseArgvResult s) \<ge> 2"
  then show "phase2 h s
          = ([], Return \<lparr> resolutionCwd =
                            (case cwdArg (parseArgvResult s) of
                               Some c \<Rightarrow> resolve h [c]
                             | None \<Rightarrow> cwd h) \<rparr>)"
    by (simp add: phase2_def ret_def)
next
  fix payload p3 a t svc
  assume a: "phase3Result payload = Some p3
         \<and> initialArgv payload = Some a
         \<and> phase4Service h payload p3 (phase4EntryPointInfo h payload) = (t, Return svc)"
  then show "\<exists>config. CreateFromPreloadedConfig config \<in> set t
                 \<and> createFromPreloadedConfig h config = Inr svc"
    by (blast dest: phase4Service_constructs)
  {
    assume "version a = 2"
    with a have "phase4Version h payload svc
        = ([ConsoleLog (''ts-node v'' @ VERSION h),
            ConsoleLog (''node '' @ processVersion h),
            ConsoleLog (''compiler v'' @ ts_version svc)], Exit 0)"
      by (simp add: phase4Version_def)
    with a show "phase4 h payload
                    = (t @ [ConsoleLog (''ts-node v'' @ VERSION h),
                            ConsoleLog (''node '' @ processVersion h),
                            ConsoleLog (''compiler v'' @ ts_version svc)], Exit 0)"
      by (simp add: phase4_version_exit)
  }
  {
    assume "version a \<ge> 3"
    with a have "phase4Version h payload svc
        = ([ConsoleLog (''ts-node v'' @ VERSION h @ '' '' @ dirname h (moduleDirname h)),
            ConsoleLog (''node '' @ processVersion h),
            ConsoleLog (''compiler v'' @ ts_version svc @ '' ''
                        @ nullish (compilerPath svc) [])], Exit 0)"
      by (simp add: phase4Version_def)
    with a show "phase4 h payload
                    = (t @ [ConsoleLog (''ts-node v'' @ VERSION h @ '' ''
                                        @ dirname h (moduleDirname h)),
                            ConsoleLog (''node '' @ processVersion h),
                            ConsoleLog (''compiler v'' @ ts_version svc @ '' ''
                                        @ nullish (compilerPath svc) [])], Exit 0)"
      by (simp add: phase4_version_exit)
  }
qed

theorem version_and_help_output_witness:
  "phase2 exampleHost \<lparr> parseArgvResult = (exampleArgv []) \<lparr> help' := True \<rparr>,
                        phase2Result = None \<rparr>
     = ([ConsoleLog usage], Exit 0)
   \<and> phase2 exampleHost \<lparr> parseArgvResult = (exampleArgv []) \<lparr> version := 1 \<rparr>,
                          phase2Result = None \<rparr>
     = ([ConsoleLog ''v10.9.1''], Exit 0)
   \<and> phase2 exampleHost \<lparr> parseArgvResult = (exampleArgv []) \<lparr> version := 2 \<rparr>,
                          phase2Result = None \<rparr>
     = ([], Return \<lparr> resolutionCwd = ''/work'' \<rparr>)
   \<and> phase4 exampleHost (versionState 2)
     = ([CreateRepl StdinFile ''/work/[stdin].ts'',
         CreateFromPreloadedConfig
           ((exampleConfig None)
              \<lparr> options := (options (exampleConfig None))
                   \<lparr> optReadFile := Some [StdinFile], optFileExists := Some [StdinFile] \<rparr> \<rparr>),
         Register, SetService StdinFile,
         ConsoleLog ''ts-node v10.9.1'', ConsoleLog ''node v18.0.0'',
         ConsoleLog ''compiler v4.7.4''], Exit 0)
   \<and> phase4 exampleHost (versionState 3)
     = ([CreateRepl StdinFile ''/work/[stdin].ts'',
         CreateFromPreloadedConfig
           ((exampleConfig None)
              \<lparr> options := (options (exampleConfig None))
                   \<lparr> optReadFile := Some [StdinFile], optFileExists := Some [StdinFile] \<rparr> \<rparr>),
         Register, SetService StdinFile,
         ConsoleLog ''ts-node v10.9.1 /work'', ConsoleLog ''node v18.0.0'',
         ConsoleLog ''compiler v4.7.4 ''], Exit 0)"
proof -
  note spec = version_and_help_output [of _ exampleHost]
  note late = spec [THEN conjunct2, THEN conjunct2, THEN conjunct2, rule_format,
                    OF conjI, OF _ conjI, OF versionState_fields(1) versionState_fields(2)
                    versionState_service]
  have host: "VERSION exampleHost = ''10.9.1''" "processVersion exampleHost = ''v18.0.0''"
    "cwd exampleHost = ''/work''" "dirname exampleHost (moduleDirname exampleHost) = ''/work''"
    "ts_version exampleService = ''4.7.4''" "compilerPath exampleService = None"
    by (simp_all add: exampleHost_def exampleService_def)
  from spec [of "\<lparr> parseArgvResult = (exampleArgv []) \<lparr> help' := True \<rparr>, phase2Result = None \<rparr>",
             THEN conjunct1]
       spec [of "\<lparr> parseArgvResult = (exampleArgv []) \<lparr> version := 1 \<rparr>, phase2Result = None \<rparr>",
             THEN conjunct2, THEN conjunct1]
       spec [of "\<lparr> parseArgvResult = (exampleArgv []) \<lparr> version := 2 \<rparr>, phase2Result = None \<rparr>",
             THEN conjunct2, THEN conjunct2, THEN conjunct1]
       late [of 2, THEN conjunct2, THEN conjunct1]
       late [of 3, THEN conjunct2, THEN conjunct2]
  show ?thesis
    by (simp add: exampleArgv_def host nullish_def)
qed

section \<open>The child process (bootstrap and completeBootstrap)\<close>

lemma configLookups_simps [simp]:
  "configLookups [] = []"
  "configLookups (e # t) = lookupOf e @ configLookups t"
  "configLookups (t @ t') = configLookups t @ configLookups t'"
  by (simp_all add: configLookups_def)

lemma configLookups_map:
  "(\<And>x. lookupOf (f x) = []) \<Longrightarrow> configLookups (map f xs) = []"
  by (induction xs) simp_all

lemma configLookups_andThen:
  "configLookups (fst (andThen m f))
     = configLookups (fst m)
       @ (case snd m of Return a \<Rightarrow> configLookups (fst (f a)) | _ \<Rightarrow> [])"
  by (cases m; cases "snd m") (auto simp add: andThen_def split: prod.splits)

lemma configLookups_andThen_nil:
  "configLookups (fst m) = [] \<Longrightarrow> (\<And>a. configLookups (fst (f a)) = []) \<Longrightarrow>
   configLookups (fst (andThen m f)) = []"
  by (simp add: configLookups_andThen split: outcome.splits)

lemma configLookups_getProjectSearchDir:
  "configLookups (fst (getProjectSearchDir h d s c p)) = []"
  by (simp add: getProjectSearchDir_def Let_def ret_def configLookups_map split: option.splits)

lemma configLookups_evalAndExitOnTsError:
  "configLookups (fst (evalAndExitOnTsError h file text isPrinted)) = []"
  by (simp add: evalAndExitOnTsError_def effects_def ret_def split: sum.splits)

lemma configLookups_stdinHandlers:
  "configLookups (fst (stdinHandlers h isPrinted buffer es)) = []"
  by (induction h isPrinted buffer es rule: stdinHandlers.induct)
     (simp_all add: ret_def configLookups_evalAndExitOnTsError)

lemma configLookups_phase4Service:
  "configLookups (fst (phase4Service h payload p3 info)) = []"
  unfolding phase4Service_def Let_def
  by (intro configLookups_andThen_nil)
     (simp_all add: effects_def ret_def configLookups_map)

lemma configLookups_phase4Version:
  "configLookups (fst (phase4Version h payload svc)) = []"
  by (simp add: phase4Version_def ret_def split: option.splits)

lemma configLookups_phase4ShowConfig:
  "configLookups (fst (phase4ShowConfig h payload svc)) = []"
  by (simp add: phase4ShowConfig_def ret_def)

lemma configLookups_phase4Argv:
  "configLookups (fst (phase4Argv h payload p3 info)) = []"
  unfolding phase4Argv_def
  by (intro configLookups_andThen_nil) (simp_all add: effects_def split: prod.splits)

lemma configLookups_phase4Execute:
  "configLookups (fst (phase4Execute h payload p3 info)) = []"
  unfolding phase4Execute_def
  by (auto intro!: configLookups_andThen_nil
        simp add: effects_def ret_def configLookups_evalAndExitOnTsError
          configLookups_stdinHandlers
        split: option.splits)

lemma configLookups_phase4:
  "configLookups (fst (phase4 h payload)) = []"
proof (cases "phase3Result payload")
  case None
  then show ?thesis by (simp add: phase4_def)
next
  case (Some p3)
  show ?thesis
    unfolding phase4_unfold [OF Some]
    by (intro configLookups_andThen_nil configLookups_phase4Service configLookups_phase4Version
          configLookups_phase4ShowConfig configLookups_phase4Argv configLookups_phase4Execute)
qed

lemma configLookups_phase3:
  "length (configLookups (fst (phase3 h payload))) \<le> 1"
proof (cases "initialArgv payload")
  case None
  then show ?thesis by (simp add: phase3_def)
next
  case argv: (Some a)
  show ?thesis
  proof (cases "initialResolutionCwd payload")
    case None
    with argv show ?thesis by (simp add: phase3_def)
  next
    case (Some d)
    show ?thesis
      unfolding phase3_unfold [OF argv Some]
      by (simp add: configLookups_andThen configLookups_getProjectSearchDir ret_def
            split: outcome.splits)
  qed
qed

lemma completeBootstrap_without_result:
  "phase3Result st = None \<Longrightarrow>
   completeBootstrap h st = andThen (phase3 h st) (\<lambda>r. phase4 h (st \<lparr> phase3Result := Some r \<rparr>))"
  by (simp add: completeBootstrap_def)

lemma completeBootstrap_with_result:
  "phase3Result st \<noteq> None \<Longrightarrow> completeBootstrap h st = phase4 h st"
  by (auto simp add: completeBootstrap_def)

lemma configLookups_completeBootstrap:
  "length (configLookups (fst (completeBootstrap h st))) \<le> 1"
proof (cases "phase3Result st")
  case None
  have "configLookups (fst (completeBootstrap h st))
          = configLookups (fst (phase3 h st))"
    by (simp add: completeBootstrap_without_result [OF None] configLookups_andThen
          configLookups_phase4 split: outcome.splits)
  with configLookups_phase3 [of h st] show ?thesis
    by simp
next
  case (Some r)
  then show ?thesis
    by (simp add: completeBootstrap_with_result configLookups_phase4)
qed

text \<open>
  What happens with a configuration file that sets \<^verbatim>\<open>esm\<close> and no \<^verbatim>\<open>--esm\<close> flag:
  \<^verbatim>\<open>bootstrap\<close> runs \<^verbatim>\<open>phase3\<close>, hands \<^verbatim>\<open>callInChildWithEsm\<close> the state without the
  result, and \<^verbatim>\<open>completeBootstrap\<close> on that state reads the configuration a second time.
\<close>

lemma esm_config_repeats_lookup:
  "bootstrap esmConfigHost \<lparr> parseArgvResult = exampleArgv [], phase2Result = None \<rparr>
     = ([FindAndReadConfig (configInputOf (exampleArgv []) ''/work'' ''/work''),
         CallInChildWithEsm (exampleState (exampleArgv [])) ''/work''], Return ())
   \<and> configLookups (fst (completeBootstrap esmConfigHost (exampleState (exampleArgv []))))
     = [configInputOf (exampleArgv []) ''/work'' ''/work'']"
proof -
  have argv: "initialArgv (exampleState (exampleArgv [])) = Some (exampleArgv [])"
    and dir: "initialResolutionCwd (exampleState (exampleArgv [])) = Some ''/work''"
    and none: "phase3Result (exampleState (exampleArgv [])) = None"
    by (simp_all add: exampleState_def)
  have search:
    "getProjectSearchDir esmConfigHost ''/work'' (scriptMode (exampleArgv []))
       (cwdMode (exampleArgv []))
       (entryPointPath
          (getEntryPointInfo esmConfigHost ''/work'' (code (exampleArgv []))
             (Some (interactive (exampleArgv []))) (parsed_restArgs (exampleArgv []))))
       = ([], Return ''/work'')"
    by (simp add: getProjectSearchDir_def entryPointPath_no_rest exampleArgv_def truthy_def
          truthyStr_def ret_def)
  have config:
    "findAndReadConfig esmConfigHost (configInputOf (exampleArgv []) ''/work'' ''/work'')
       = Inr (exampleConfig (Some True))"
    by (simp add: esmConfigHost_def)
  have p3: "phase3 esmConfigHost (exampleState (exampleArgv []))
      = ([FindAndReadConfig (configInputOf (exampleArgv []) ''/work'' ''/work'')],
         Return \<lparr> preloadedConfig = exampleConfig (Some True), enableEsmLoader = True \<rparr>)"
    by (simp add: phase3_unfold [OF argv dir] search config called_def ret_def
          exampleConfig_def truthy_def)
  have p2: "phase2 esmConfigHost \<lparr> parseArgvResult = exampleArgv [], phase2Result = None \<rparr>
      = ([], Return \<lparr> resolutionCwd = ''/work'' \<rparr>)"
    by (simp add: phase2_def exampleArgv_def ret_def esmConfigHost_def exampleHost_def)
  have st: "initialProcessState (exampleArgv []) \<lparr> resolutionCwd = ''/work'' \<rparr>
      = exampleState (exampleArgv [])"
    by (simp add: initialProcessState_def exampleState_def)
  have host: "cwd esmConfigHost = ''/work''"
    by (simp add: esmConfigHost_def exampleHost_def)
  have flag: "\<not> truthy (esm (exampleArgv []))"
    by (simp add: exampleArgv_def truthy_def)
  have run: "bootstrap esmConfigHost \<lparr> parseArgvResult = exampleArgv [], phase2Result = None \<rparr>
     = ([FindAndReadConfig (configInputOf (exampleArgv []) ''/work'' ''/work''),
         CallInChildWithEsm (exampleState (exampleArgv [])) ''/work''], Return ())"
    by (simp add: bootstrap_def p2 st flag p3 host effects_def)
  have "configLookups (fst (completeBootstrap esmConfigHost (exampleState (exampleArgv []))))
          = configLookups (fst (phase3 esmConfigHost (exampleState (exampleArgv []))))"
    by (simp add: completeBootstrap_without_result [OF none] configLookups_andThen
          configLookups_phase4 split: outcome.splits)
  with run show ?thesis
    by (simp add: p3)
qed

text \<open>
  Claim C4, as it is stated, fails.  With the \<^verbatim>\<open>--esm\<close> flag \<^verbatim>\<open>bootstrap\<close> skips
  \<^verbatim>\<open>phase3\<close> (lines 110-116): the state it hands to \<^verbatim>\<open>callInChildWithEsm\<close> has no
  \<^verbatim>\<open>phase3Result\<close>, and \<^verbatim>\<open>completeBootstrap\<close> on that state, which is what runs in the
  child (lines 133-139), calls \<^verbatim>\<open>phase3\<close> and with it \<^verbatim>\<open>findAndReadConfig\<close>.
\<close>

theorem esm_flag_defers_phase3:
  "phase3Result
     (initialProcessState (parseArgvResult esmFlagState) \<lparr> resolutionCwd = ''/work'' \<rparr>) = None
   \<and> bootstrap exampleHost esmFlagState
     = ([CallInChildWithEsm
           (initialProcessState (parseArgvResult esmFlagState) \<lparr> resolutionCwd = ''/work'' \<rparr>)
           ''/work''], Return ())
   \<and> configLookups
       (fst (completeBootstrap exampleHost
               (initialProcessState (parseArgvResult esmFlagState)
                  \<lparr> resolutionCwd = ''/work'' \<rparr>)))
     = [configInputOf (parseArgvResult esmFlagState) ''/work'' ''/work'']"
proof -
  let ?st = "initialProcessState (parseArgvResult esmFlagState) \<lparr> resolutionCwd = ''/work'' \<rparr>"
  have none: "phase3Result ?st = None"
    by (simp add: initialProcessState_def)
  have run: "bootstrap exampleHost esmFlagState = ([CallInChildWithEsm ?st ''/work''], Return ())"
    by (simp add: bootstrap_def phase2_def esmFlagState_def exampleArgv_def ret_def effects_def
          truthy_def Let_def)
       (simp add: exampleHost_def)
  have argv: "initialArgv ?st = Some (parseArgvResult esmFlagState)"
    and dir: "initialResolutionCwd ?st = Some ''/work''"
    by (simp_all add: initialProcessState_def)
  have search:
    "getProjectSearchDir exampleHost ''/work'' (scriptMode (parseArgvResult esmFlagState))
       (cwdMode (parseArgvResult esmFlagState))
       (entryPointPath
          (getEntryPointInfo exampleHost ''/work'' (code (parseArgvResult esmFlagState))
             (Some (interactive (parseArgvResult esmFlagState)))
             (parsed_restArgs (parseArgvResult esmFlagState))))
       = ([InstallExtension ''.jsx'', InstallExtension ''.ts'', InstallExtension ''.tsx'',
           RequireResolve ''/work/script.ts'',
           DeleteExtension ''.jsx'', DeleteExtension ''.ts'', DeleteExtension ''.tsx''],
          Return ''/work'')"
    by (simp add: getProjectSearchDir_def getEntryPointInfo_def esmFlagState_def exampleArgv_def
          truthy_def truthyStr_def Let_def exts_def)
       (simp add: exampleHost_def exampleResolve_def)
  have config:
    "findAndReadConfig exampleHost
       (configInputOf (parseArgvResult esmFlagState) ''/work'' ''/work'')
       = Inr (exampleConfig None)"
    by (simp add: exampleHost_def)
  have "configLookups (fst (completeBootstrap exampleHost ?st))
          = configLookups (fst (phase3 exampleHost ?st))"
    by (simp add: completeBootstrap_without_result [OF none] configLookups_andThen
          configLookups_phase4 split: outcome.splits)
  also have "\<dots> = [configInputOf (parseArgvResult esmFlagState) ''/work'' ''/work'']"
    by (simp add: phase3_unfold [OF argv dir] search config called_def ret_def)
  finally show ?thesis
    using none run by simp
qed

text \<open>
  Claim C4, amended.  With the \<^verbatim>\<open>--esm\<close> flag set, \<^verbatim>\<open>bootstrap\<close> does not read the
  configuration: after \<^verbatim>\<open>phase2\<close> it hands \<^verbatim>\<open>callInChildWithEsm\<close> the initial process
  state, which has no \<^verbatim>\<open>phase3Result\<close>, and the configuration is computed in the child.
  \<^verbatim>\<open>completeBootstrap\<close> runs \<^verbatim>\<open>phase3\<close> exactly when the state it receives has no
  \<^verbatim>\<open>phase3Result\<close>; a state that carries one goes to \<^verbatim>\<open>phase4\<close> as it is, with no call
  of \<^verbatim>\<open>findAndReadConfig\<close>; and no run of \<^verbatim>\<open>completeBootstrap\<close> calls
  \<^verbatim>\<open>findAndReadConfig\<close> more than once.
\<close>

theorem completeBootstrap_config_lookups:
  "(truthy (esm (parseArgvResult s)) \<longrightarrow>
      (\<forall>t p2. phase2 h s = (t, Return p2) \<longrightarrow>
         bootstrap h s
           = (t @ [CallInChildWithEsm (initialProcessState (parseArgvResult s) p2) (cwd h)],
              Return ())
         \<and> phase3Result (initialProcessState (parseArgvResult s) p2) = None
         \<and> configLookups (fst (bootstrap h s)) = []))
   \<and> (phase3Result st = None \<longrightarrow>
        completeBootstrap h st
          = andThen (phase3 h st) (\<lambda>r. phase4 h (st \<lparr> phase3Result := Some r \<rparr>)))
   \<and> (phase3Result st \<noteq> None \<longrightarrow>
        completeBootstrap h st = phase4 h st
        \<and> configLookups (fst (completeBootstrap h st)) = [])
   \<and> length (configLookups (fst (completeBootstrap h st))) \<le> 1"
proof (intro conjI allI impI)
  fix t p2
  assume flag: "truthy (esm (parseArgvResult s))" and p2: "phase2 h s = (t, Return p2)"
  from flag p2 show run: "bootstrap h s
           = (t @ [CallInChildWithEsm (initialProcessState (parseArgvResult s) p2) (cwd h)],
              Return ())"
    by (simp add: bootstrap_def Let_def effects_def)
  show "phase3Result (initialProcessState (parseArgvResult s) p2) = None"
    by (simp add: initialProcessState_def)
  from p2 have "configLookups t = []"
    by (auto simp add: phase2_def Let_def ret_def split: if_splits)
  then show "configLookups (fst (bootstrap h s)) = []"
    by (simp add: run)
next
  assume "phase3Result st = None"
  then show "completeBootstrap h st
          = andThen (phase3 h st) (\<lambda>r. phase4 h (st \<lparr> phase3Result := Some r \<rparr>))"
    by (rule completeBootstrap_without_result)
next
  assume some: "phase3Result st \<noteq> None"
  then show "completeBootstrap h st = phase4 h st"
    by (rule completeBootstrap_with_result)
  from some show "configLookups (fst (completeBootstrap h st)) = []"
    by (simp add: completeBootstrap_with_result configLookups_phase4)
next
  show "length (configLookups (fst (completeBootstrap h st))) \<le> 1"
    by (rule configLookups_completeBootstrap)
qed

theorem completeBootstrap_config_lookups_witness:
  "bootstrap exampleHost esmFlagState
     = ([CallInChildWithEsm
           (initialProcessState (parseArgvResult esmFlagState) \<lparr> resolutionCwd = ''/work'' \<rparr>)
           ''/work''], Return ())
   \<and> completeBootstrap exampleHost stdinState = phase4 exampleHost stdinState
   \<and> configLookups (fst (completeBootstrap exampleHost stdinState)) = []"
proof -
  have flag: "truthy (esm (parseArgvResult esmFlagState))"
    by (simp add: esmFlagState_def truthy_def)
  have p2: "phase2 exampleHost esmFlagState = ([], Return \<lparr> resolutionCwd = ''/work'' \<rparr>)"
    by (simp add: phase2_def esmFlagState_def exampleArgv_def ret_def exampleHost_def)
  have some: "phase3Result stdinState \<noteq> None"
    by (simp add: stdinState_fields)
  have host: "cwd exampleHost = ''/work''"
    by (simp add: exampleHost_def)
  from completeBootstrap_config_lookups [of esmFlagState exampleHost stdinState,
         THEN conjunct1, rule_format, OF flag p2, THEN conjunct1, unfolded host append_Nil]
       completeBootstrap_config_lookups [of esmFlagState exampleHost stdinState,
         THEN conjunct2, THEN conjunct2, THEN conjunct1, rule_format, OF some]
  show ?thesis
    by blast
qed

section \<open>The entry point in a forked process\<close>

lemma getEntryPointInfo_without_flags:
  "(getEntryPointInfo h c None None rest = getEntryPointInfo h d None i rest)
     = (if rest = [] then \<not> truthy i \<or> truthy (stdinIsTTY h)
        else resolve h [c, hd rest] = resolve h [d, hd rest])"
proof (cases rest)
  case Nil
  then show ?thesis
    by (cases i; cases "stdinIsTTY h")
       (auto simp add: getEntryPointInfo_def Let_def js_or_def js_and_def truthy_def)
next
  case (Cons x xs)
  then show ?thesis
    by (simp add: getEntryPointInfo_def Let_def js_or_def js_and_def truthy_def)
qed

lemma dropHooks_restArgs: "fork_restArgs (dropHooks (id f)) = fork_restArgs f"
  by (simp add: dropHooks_def)

text \<open>
  Claim C7, as it is stated, fails: the interactive flag and the resolution directory are
  not carried to the forked process either.  With \<^verbatim>\<open>--interactive\<close>, no rest arguments and
  a piped standard input the run itself starts the REPL, and a process started from its
  forked-process state reads standard input; with \<^verbatim>\<open>--cwd /other\<close> the run resolves the
  script against \<^verbatim>\<open>/other\<close>, and the forked process against its working directory.
\<close>

theorem forked_state_loses_interactive:
  "createBootstrapStateForChildProcess interactiveState
     = Inr \<lparr> fork_restArgs = [], fork_phase3Result = examplePhase3Result \<rparr>
   \<and> phase4EntryPointInfo exampleHost
       (forkedProcessPayload \<lparr> fork_restArgs = [], fork_phase3Result = examplePhase3Result \<rparr>)
     = \<lparr> executeEval = False, executeEntrypoint = False, executeRepl = None,
         executeStdin = True, entryPointPath = None \<rparr>
   \<and> phase4EntryPointInfo exampleHost (withoutCode interactiveState)
     = \<lparr> executeEval = False, executeEntrypoint = False, executeRepl = Some True,
         executeStdin = False, entryPointPath = None \<rparr>
   \<and> createBootstrapStateForChildProcess otherDirState
     = Inr \<lparr> fork_restArgs = [''script.ts''], fork_phase3Result = examplePhase3Result \<rparr>
   \<and> entryPointPath
       (phase4EntryPointInfo exampleHost
          (forkedProcessPayload
             \<lparr> fork_restArgs = [''script.ts''], fork_phase3Result = examplePhase3Result \<rparr>))
     = Some ''/work/script.ts''
   \<and> entryPointPath (phase4EntryPointInfo exampleHost (withoutCode otherDirState))
     = Some ''/other/script.ts''"
  by (simp add: createBootstrapStateForChildProcess_def interactiveState_def otherDirState_def
        exampleState_def phase4ResolutionCwd_def nullish_def
        examplePhase3Result_def phase4EntryPointInfo_def forkedProcessPayload_def withoutCode_def
        getEntryPointInfo_def Let_def js_and_def js_or_def truthy_def exampleArgv_def)
     (simp add: exampleHost_def exampleResolve_def)

text \<open>
  Claim C7, amended.  Let the marshalling of the forked-process state keep its rest
  arguments (it may lose anything else, such as the hooks of the configuration).  Then
  \<^verbatim>\<open>phase4\<close> in the child computes from the deserialised state the same
  \<^verbatim>\<open>EntryPointInfo\<close> as the run itself computes from the same rest arguments with the
  inline code left out, exactly in these cases: when there are no rest arguments, if the
  interactive flag is unset or the standard input is a terminal; when there are rest
  arguments, if the first of them resolves to the same path against the working directory
  of the child as against the resolution directory of the run (as it does without a
  \<^verbatim>\<open>--cwd\<close> override).
\<close>

theorem forked_state_entry_point:
  assumes built: "createBootstrapStateForChildProcess state = Inr f"
      and rest_kept: "fork_restArgs (deserialize (serialize f)) = fork_restArgs f"
  shows "(phase4EntryPointInfo h (forkedProcessPayload (deserialize (serialize f)))
            = phase4EntryPointInfo h (withoutCode state))
         = (if restArgs state = [] then
              \<not> (\<exists>a. initialArgv state = Some a \<and> interactive a) \<or> truthy (stdinIsTTY h)
            else resolve h [cwd h, hd (restArgs state)]
                   = resolve h [phase4ResolutionCwd h state, hd (restArgs state)])"
proof -
  from built have rest: "fork_restArgs f = restArgs state"
    by (auto simp add: createBootstrapStateForChildProcess_def split: option.splits)
  have child: "phase4EntryPointInfo h (forkedProcessPayload (deserialize (serialize f)))
      = getEntryPointInfo h (cwd h) None None (restArgs state)"
    by (simp add: rest_kept phase4EntryPointInfo_def forkedProcessPayload_def rest
          phase4ResolutionCwd_def nullish_def)
  have parent: "phase4EntryPointInfo h (withoutCode state)
      = getEntryPointInfo h (phase4ResolutionCwd h state) None
          (map_option interactive (initialArgv state)) (restArgs state)"
    by (cases "initialArgv state")
       (simp_all add: phase4EntryPointInfo_def withoutCode_def phase4ResolutionCwd_def)
  have flag: "truthy (map_option interactive (initialArgv state))
      = (\<exists>a. initialArgv state = Some a \<and> interactive a)"
    by (cases "initialArgv state") (simp_all add: truthy_def)
  show ?thesis
    unfolding child parent getEntryPointInfo_without_flags flag ..
qed

theorem forked_state_entry_point_witness:
  "phase4EntryPointInfo exampleHost
     (forkedProcessPayload
        (dropHooks (id \<lparr> fork_restArgs = [''script.ts'', ''--flag''],
                         fork_phase3Result = hookedPhase3Result \<rparr>)))
     = phase4EntryPointInfo exampleHost (withoutCode interactiveScriptState)
   \<and> dropHooks \<lparr> fork_restArgs = [''script.ts'', ''--flag''],
                  fork_phase3Result = hookedPhase3Result \<rparr>
     \<noteq> \<lparr> fork_restArgs = [''script.ts'', ''--flag''], fork_phase3Result = hookedPhase3Result \<rparr>
   \<and> phase4EntryPointInfo exampleHost
       (forkedProcessPayload
          (dropHooks (id \<lparr> fork_restArgs = [], fork_phase3Result = hookedPhase3Result \<rparr>)))
     = phase4EntryPointInfo exampleHost (withoutCode otherDirStdinState)
   \<and> phase4EntryPointInfo exampleHost
       (forkedProcessPayload
          (dropHooks (id \<lparr> fork_restArgs = [], fork_phase3Result = examplePhase3Result \<rparr>)))
     \<noteq> phase4EntryPointInfo exampleHost (withoutCode interactiveState)"
proof -
  have built1: "createBootstrapStateForChildProcess interactiveScriptState
      = Inr \<lparr> fork_restArgs = [''script.ts'', ''--flag''],
              fork_phase3Result = hookedPhase3Result \<rparr>"
    and built2: "createBootstrapStateForChildProcess otherDirStdinState
      = Inr \<lparr> fork_restArgs = [], fork_phase3Result = hookedPhase3Result \<rparr>"
    and built3: "createBootstrapStateForChildProcess interactiveState
      = Inr \<lparr> fork_restArgs = [], fork_phase3Result = examplePhase3Result \<rparr>"
    by (simp_all add: createBootstrapStateForChildProcess_def interactiveScriptState_def
          otherDirStdinState_def interactiveState_def exampleState_def exampleArgv_def
          hookedPhase3Result_def examplePhase3Result_def)
  have lossy: "dropHooks \<lparr> fork_restArgs = [''script.ts'', ''--flag''],
                  fork_phase3Result = hookedPhase3Result \<rparr>
     \<noteq> \<lparr> fork_restArgs = [''script.ts'', ''--flag''], fork_phase3Result = hookedPhase3Result \<rparr>"
    by (simp add: dropHooks_def hookedPhase3Result_def exampleConfig_def)
  have fields:
    "restArgs interactiveScriptState = [''script.ts'', ''--flag'']"
    "phase4ResolutionCwd exampleHost interactiveScriptState = ''/work''"
    "restArgs otherDirStdinState = []"
    "initialArgv otherDirStdinState = Some ((exampleArgv []) \<lparr> cwdArg := Some ''/other'' \<rparr>)"
    "restArgs interactiveState = []"
    "initialArgv interactiveState = Some ((exampleArgv []) \<lparr> interactive := True \<rparr>)"
    by (simp_all add: interactiveScriptState_def otherDirStdinState_def interactiveState_def
          exampleState_def exampleArgv_def phase4ResolutionCwd_def nullish_def)
  have host: "cwd exampleHost = ''/work''" "stdinIsTTY exampleHost = None"
    by (simp_all add: exampleHost_def)
  from forked_state_entry_point [of interactiveScriptState _ dropHooks id exampleHost,
         OF built1 dropHooks_restArgs]
       forked_state_entry_point [of otherDirStdinState _ dropHooks id exampleHost,
         OF built2 dropHooks_restArgs]
       forked_state_entry_point [of interactiveState _ dropHooks id exampleHost,
         OF built3 dropHooks_restArgs]
       lossy
  show ?thesis
    by (simp add: fields host exampleArgv_def truthy_def)
qed

end
